theory Spec2Isabelle
  imports Complex_Main
begin

section \<open>Strings and numbers of the source language\<close>

text \<open>
  The TypeScript sources work on strings and on \<open>number\<close>s. Strings are modelled as
  \<^typ>\<open>string\<close>; every table of the program (taxonomy, gazetteer, heuristic tables) is
  plain ASCII, and case mapping and white space are modelled on the ASCII characters.
  Numbers are modelled as exact rationals: the classifier only adds the constants 0.35 and
  0.15 (always the keywords first, then the rules) and compares the sums, and the
  orchestrator only scales a draw of the random generator, so the comparisons made by the
  code come out the same.
\<close>

definition toLowerChar :: "char \<Rightarrow> char" where
  "toLowerChar c =
     (let n = (of_char c :: nat) in if 65 \<le> n \<and> n \<le> 90 then char_of (n + 32) else c)"

definition toUpperChar :: "char \<Rightarrow> char" where
  "toUpperChar c =
     (let n = (of_char c :: nat) in if 97 \<le> n \<and> n \<le> 122 then char_of (n - 32) else c)"

definition toLowerCase :: "string \<Rightarrow> string" where
  "toLowerCase s = map toLowerChar s"

fun startsWith :: "string \<Rightarrow> string \<Rightarrow> bool" where
  "startsWith s [] = True"
| "startsWith [] (p # ps) = False"
| "startsWith (c # cs) (p # ps) = (if c = p then startsWith cs ps else False)"

text \<open>
  \<open>s.includes(sub)\<close>, named \<open>str_includes\<close> here: \<open>sub\<close> occurs in \<open>s\<close> as a
  contiguous substring.
\<close>

fun str_includes :: "string \<Rightarrow> string \<Rightarrow> bool" where
  "str_includes [] sub = (sub = [])"
| "str_includes (c # cs) sub =
     (if startsWith (c # cs) sub then True else str_includes cs sub)"

section \<open>POI taxonomy and classifier (utils/poiClassifier.ts)\<close>

record POICategory =
  category_id :: string
  category_name :: string
  description :: string
  category_keywords :: "string list"
  contextualRules :: "string list"

definition food_beverage :: POICategory where
  "food_beverage = \<lparr> category_id = ''food_beverage'', category_name = ''Food & Beverage'',
     description = ''Restaurants, cafes, street food, and beverage outlets'',
     category_keywords = [''restaurant'', ''cafe'', ''dhaba'', ''chai'', ''food'', ''biryani'',
                 ''dosa'', ''coffee'', ''bakery''],
     contextualRules = [''Near residential areas'', ''High foot traffic zones'',
                        ''Commercial streets''] \<rparr>"

definition retail :: POICategory where
  "retail = \<lparr> category_id = ''retail'', category_name = ''Retail & Shopping'',
     description = ''Shops, markets, malls, and retail outlets'',
     category_keywords = [''shop'', ''store'', ''market'', ''mall'', ''kirana'', ''bazaar'',
                 ''supermarket'', ''grocery''],
     contextualRules = [''Commercial zones'', ''Market districts'',
                        ''Residential periphery''] \<rparr>"

definition healthcare :: POICategory where
  "healthcare = \<lparr> category_id = ''healthcare'', category_name = ''Healthcare'',
     description = ''Hospitals, clinics, pharmacies, diagnostic centers'',
     category_keywords = [''hospital'', ''clinic'', ''pharmacy'', ''medical'', ''doctor'',
                 ''diagnostic'', ''chemist'', ''health''],
     contextualRules = [''Accessible locations'', ''Near residential areas'',
                        ''Main roads''] \<rparr>"

definition education :: POICategory where
  "education = \<lparr> category_id = ''education'', category_name = ''Education'',
     description = ''Schools, colleges, coaching centers, libraries'',
     category_keywords = [''school'', ''college'', ''university'', ''coaching'', ''tuition'',
                 ''library'', ''academy'', ''institute''],
     contextualRules = [''Residential neighborhoods'', ''Safe zones'',
                        ''Away from industrial areas''] \<rparr>"

definition finance :: POICategory where
  "finance = \<lparr> category_id = ''finance'', category_name = ''Financial Services'',
     description = ''Banks, ATMs, insurance, financial services'',
     category_keywords = [''bank'', ''atm'', ''insurance'', ''finance'', ''money transfer'',
                 ''loan'', ''credit''],
     contextualRules = [''Commercial areas'', ''High security zones'',
                        ''Main markets''] \<rparr>"

definition transportation :: POICategory where
  "transportation = \<lparr> category_id = ''transportation'', category_name = ''Transportation'',
     description = ''Bus stops, metro stations, auto stands, parking'',
     category_keywords = [''bus'', ''metro'', ''auto'', ''taxi'', ''parking'', ''station'',
                 ''stand'', ''terminal''],
     contextualRules = [''Transit hubs'', ''Major roads'', ''Junction points''] \<rparr>"

definition worship :: POICategory where
  "worship = \<lparr> category_id = ''worship'', category_name = ''Places of Worship'',
     description = ''Temples, mosques, churches, gurudwaras'',
     category_keywords = [''temple'', ''mosque'', ''church'', ''gurudwara'', ''mandir'',
                 ''masjid'', ''prayer''],
     contextualRules = [''Community centers'', ''Peaceful areas'',
                        ''Heritage zones''] \<rparr>"

definition entertainment :: POICategory where
  "entertainment = \<lparr> category_id = ''entertainment'', category_name = ''Entertainment'',
     description = ''Theaters, gaming zones, recreational facilities'',
     category_keywords = [''cinema'', ''theater'', ''gaming'', ''entertainment'', ''multiplex'',
                 ''park'', ''playground''],
     contextualRules = [''Commercial zones'', ''Urban centers'', ''Family areas''] \<rparr>"

definition government :: POICategory where
  "government = \<lparr> category_id = ''government'', category_name = ''Government Services'',
     description = ''Government offices, post offices, civic centers'',
     category_keywords = [''government'', ''office'', ''post office'', ''municipal'', ''civic'',
                 ''panchayat'', ''tehsil''],
     contextualRules = [''Administrative zones'', ''Accessible locations'',
                        ''City centers''] \<rparr>"

definition technology :: POICategory where
  "technology = \<lparr> category_id = ''technology'', category_name = ''IT & Technology'',
     description = ''IT parks, tech companies, coworking spaces'',
     category_keywords = [''IT park'', ''tech park'', ''office'', ''coworking'', ''startup'',
                 ''software'', ''technology''],
     contextualRules = [''Business districts'', ''Modern infrastructure'',
                        ''Metro connectivity''] \<rparr>"

definition hospitality :: POICategory where
  "hospitality = \<lparr> category_id = ''hospitality'', category_name = ''Hospitality'',
     description = ''Hotels, lodges, guest houses'',
     category_keywords = [''hotel'', ''lodge'', ''guest house'', ''resort'', ''inn'', ''motel'',
                 ''hostel''],
     contextualRules = [''Tourist areas'', ''Business districts'',
                        ''Transport hubs''] \<rparr>"

definition automotive :: POICategory where
  "automotive = \<lparr> category_id = ''automotive'', category_name = ''Automotive'',
     description = ''Fuel stations, service centers, showrooms'',
     category_keywords = [''petrol'', ''diesel'', ''fuel'', ''service center'', ''showroom'',
                 ''workshop'', ''garage''],
     contextualRules = [''Main roads'', ''Highway junctions'',
                        ''Industrial areas''] \<rparr>"

definition fitness :: POICategory where
  "fitness = \<lparr> category_id = ''fitness'', category_name = ''Fitness & Wellness'',
     description = ''Gyms, yoga centers, spas, salons'',
     category_keywords = [''gym'', ''fitness'', ''yoga'', ''spa'', ''salon'', ''wellness'',
                 ''health club''],
     contextualRules = [''Residential areas'', ''Commercial zones'',
                        ''IT park vicinity''] \<rparr>"

definition industrial :: POICategory where
  "industrial = \<lparr> category_id = ''industrial'', category_name = ''Industrial'',
     description = ''Factories, warehouses, manufacturing units'',
     category_keywords = [''factory'', ''warehouse'', ''industrial'', ''manufacturing'',
                 ''godown'', ''plant''],
     contextualRules = [''Industrial zones'', ''City outskirts'',
                        ''Logistics hubs''] \<rparr>"

definition residential :: POICategory where
  "residential = \<lparr> category_id = ''residential'', category_name = ''Residential'',
     description = ''Apartments, villas, housing societies'',
     category_keywords = [''apartment'', ''villa'', ''society'', ''colony'', ''township'',
                 ''residential''],
     contextualRules = [''Planned layouts'', ''School proximity'', ''Green zones''] \<rparr>"

definition POI_CATEGORIES :: "POICategory list" where
  "POI_CATEGORIES =
     [food_beverage, retail, healthcare, education, finance, transportation, worship,
      entertainment, government, technology, hospitality, automotive, fitness,
      industrial, residential]"

record Classification =
  category :: string
  confidence :: rat

text \<open>
  The inner loops of \<open>classifyPOI\<close>. The keyword is compared as written (it is not
  lower-cased); the rule is lower-cased before the comparison. The context loop runs only
  when \<open>context\<close> is truthy, that is, present and not the empty string.
\<close>

definition keywordScore :: "string \<Rightarrow> string list \<Rightarrow> rat" where
  "keywordScore nameLower kws =
     fold (\<lambda>keyword score.
             if str_includes nameLower keyword then score + 35 / 100 else score)
       kws 0"

definition contextScore :: "string \<Rightarrow> string list \<Rightarrow> rat \<Rightarrow> rat" where
  "contextScore contextLower rules score0 =
     fold (\<lambda>rule score.
             if str_includes contextLower (toLowerCase rule) then score + 15 / 100 else score)
       rules score0"

definition truthy :: "string option \<Rightarrow> bool" where
  "truthy context = (case context of None \<Rightarrow> False | Some c \<Rightarrow> c \<noteq> [])"

definition categoryConfidence :: "string \<Rightarrow> string option \<Rightarrow> POICategory \<Rightarrow> rat" where
  "categoryConfidence nameLower context cat =
     (let contextLower = (case context of None \<Rightarrow> [] | Some c \<Rightarrow> toLowerCase c);
          score = keywordScore nameLower (category_keywords cat);
          score' = (if truthy context
                    then contextScore contextLower (contextualRules cat) score
                    else score)
      in min score' (95 / 100))"

definition classifyStep :: "string \<Rightarrow> string option \<Rightarrow> POICategory \<Rightarrow> Classification
    \<Rightarrow> Classification" where
  "classifyStep nameLower context cat bestMatch =
     (let conf = categoryConfidence nameLower context cat
      in if conf > confidence bestMatch
         then \<lparr> category = category_id cat, confidence = conf \<rparr>
         else bestMatch)"

definition classifyPOI :: "string \<Rightarrow> string option \<Rightarrow> Classification" where
  "classifyPOI name context =
     fold (classifyStep (toLowerCase name) context) POI_CATEGORIES
       \<lparr> category = ''unknown'', confidence = 3 / 10 \<rparr>"

section \<open>Values of the source language\<close>

text \<open>
  What \<open>JSON.parse\<close> returns and what a request body holds is a value of any shape. The
  program reads such values without checking them (the interpreter's reply in
  \<open>analyzeQuery\<close>, \<open>queryType\<close> in the handler), so they are modelled untyped, and a
  use that the value does not support throws a \<open>TypeError\<close>. A thrown value is an
  \<open>Error\<close> with its message or some other value; the wording of the messages of a
  \<open>TypeError\<close> is the engine's.
\<close>

datatype thrown = Error string | OtherValue

datatype json =
    JUndefined
  | JNull
  | JBool bool
  | JNumber rat
  | JString string
  | JArray "json list"
  | JObject "(string \<times> json) list"

text \<open>A property of a parsed value that is read by name: absent reads as \<open>undefined\<close>.\<close>

definition field :: "json \<Rightarrow> string \<Rightarrow> json" where
  "field v key =
     (case v of
        JObject kvs \<Rightarrow> (case map_of kvs key of Some x \<Rightarrow> x | None \<Rightarrow> JUndefined)
      | _ \<Rightarrow> JUndefined)"

definition falsy :: "json \<Rightarrow> bool" where
  "falsy v =
     (case v of
        JUndefined \<Rightarrow> True
      | JNull \<Rightarrow> True
      | JBool b \<Rightarrow> \<not> b
      | JNumber n \<Rightarrow> n = 0
      | JString s \<Rightarrow> s = []
      | _ \<Rightarrow> False)"

text \<open>Sequencing of steps that may throw: the first exception ends the function.\<close>

definition andThen :: "thrown + 'a \<Rightarrow> ('a \<Rightarrow> thrown + 'b) \<Rightarrow> thrown + 'b" where
  "andThen m f = (case m of Inl e \<Rightarrow> Inl e | Inr x \<Rightarrow> f x)"

definition quoted :: "string \<Rightarrow> string" where
  "quoted s = [CHR 0x27] @ s @ [CHR 0x27]"

text \<open>
  The \<open>TypeError\<close> of a call \<open>v.m(...)\<close> on a value \<open>v\<close>, held by the variable
  \<open>var\<close>, that has no method \<open>m\<close>.
\<close>

definition methodTypeError :: "string \<Rightarrow> string \<Rightarrow> json \<Rightarrow> thrown" where
  "methodTypeError var m v =
     (case v of
        JUndefined \<Rightarrow>
          Error (''Cannot read properties of undefined (reading '' @ quoted m @ '')'')
      | JNull \<Rightarrow>
          Error (''Cannot read properties of null (reading '' @ quoted m @ '')'')
      | _ \<Rightarrow> Error (var @ ''.'' @ m @ '' is not a function''))"

text \<open>
  The conversion to a string that a template literal and a computed property key apply.
  The text of a number is the engine's (\<open>numberText\<close>). A parsed object converts through
  the inherited \<open>toString\<close> unless it has a property of that name of its own, which is
  data and cannot be called; then the conversion throws. \<open>joinElements\<close> is the
  conversion of an array: \<open>null\<close> and \<open>undefined\<close> elements give the empty string.
\<close>

fun ToString :: "(rat \<Rightarrow> string) \<Rightarrow> json \<Rightarrow> thrown + string"
  and joinElements :: "(rat \<Rightarrow> string) \<Rightarrow> json list \<Rightarrow> thrown + string list" where
  "ToString numberText JUndefined = Inr ''undefined''"
| "ToString numberText JNull = Inr ''null''"
| "ToString numberText (JBool b) = Inr (if b then ''true'' else ''false'')"
| "ToString numberText (JNumber n) = Inr (numberText n)"
| "ToString numberText (JString s) = Inr s"
| "ToString numberText (JArray xs) =
     (case joinElements numberText xs of
        Inl e \<Rightarrow> Inl e
      | Inr ss \<Rightarrow> Inr (case ss of [] \<Rightarrow> [] | y # ys \<Rightarrow> y @ concat (map (\<lambda>z. '','' @ z) ys)))"
| "ToString numberText (JObject kvs) =
     (if map_of kvs ''toString'' = None then Inr ''[object Object]''
      else Inl (Error ''Cannot convert object to primitive value''))"
| "joinElements numberText [] = Inr []"
| "joinElements numberText (x # xs) =
     (case (if x = JUndefined \<or> x = JNull then Inr [] else ToString numberText x) of
        Inl e \<Rightarrow> Inl e
      | Inr s \<Rightarrow>
          (case joinElements numberText xs of
             Inl e \<Rightarrow> Inl e
           | Inr ss \<Rightarrow> Inr (s # ss)))"

section \<open>LLM query interpreter (utils/llmIntegration.ts)\<close>

text \<open>
  The module reads its configuration from the environment once; the model takes it as a
  record. The chat-completion endpoint and \<open>JSON.parse\<close> are not code of this program:
  they are parameters, and each may throw. \<open>JSON.parse\<close> returns a value of any shape,
  and the interpreter hands it on as it is.
\<close>

record LLMConfig =
  USE_LLM :: bool
  LLM_PROVIDER :: string
  OLLAMA_BASE_URL :: string
  OLLAMA_MODEL :: string
  OPENAI_API_KEY :: "string option"

record LLMQueryAnalysis =
  location :: string
  businessType :: string
  contextualFactors :: "string list"
  marketInsights :: string
  keyAssumptions :: "string list"

record Client =
  baseURL :: "string option"
  apiKey :: "string option"
  dangerouslyAllowBrowser :: bool

definition getClient :: "LLMConfig \<Rightarrow> Client option" where
  "getClient cfg =
     (if LLM_PROVIDER cfg = ''ollama''
      then Some \<lparr> baseURL = Some (OLLAMA_BASE_URL cfg), apiKey = Some ''ollama'',
                  dangerouslyAllowBrowser = True \<rparr>
      else if LLM_PROVIDER cfg = ''openai''
      then Some \<lparr> baseURL = None, apiKey = OPENAI_API_KEY cfg,
                  dangerouslyAllowBrowser = True \<rparr>
      else None)"

definition newline :: string where
  "newline = [CHR 0x0A]"

definition joinWith :: "string \<Rightarrow> string list \<Rightarrow> string" where
  "joinWith sep xs = (case xs of [] \<Rightarrow> [] | y # ys \<Rightarrow> y @ concat (map (\<lambda>z. sep @ z) ys))"

definition SYSTEM_PROMPT :: string where
  \<open>SYSTEM_PROMPT = joinWith newline
    [''You are POI Oracle, an expert spatial intelligence AI specialized in location analysis for businesses in India and Africa.'',
     [],
     ''Your task is to analyze business location queries and extract structured information. Always respond with valid JSON in this exact format:'',
     ''{'',
     ''  "location": "city name (e.g., Bangalore, Delhi, Nairobi)",'',
     ''  "businessType": "type of business (e.g., Chai Stall, Pharmacy, Restaurant)",'',
     ''  "contextualFactors": ["factor1", "factor2", "factor3"],'',
     ''  "marketInsights": "A detailed 2-3 sentence analysis of the market opportunity",'',
     ''  "keyAssumptions": ["assumption1", "assumption2", "assumption3"]'',
     ''}'',
     [],
     ''Focus on:'',
     ''1. Identifying the exact target location and business type'',
     ''2. Understanding contextual factors (IT parks, residential areas, foot traffic patterns)'',
     ''3. Making realistic assumptions about the business environment'',
     ''4. Providing actionable market insights based on spatial reasoning'',
     [],
     ''Be specific about Indian/African market dynamics when relevant.'']\<close>

record ChatMessage =
  role :: string
  content :: "string option"

record ChatRequest =
  model :: string
  messages :: "ChatMessage list"
  temperature :: "rat option"
  max_tokens :: nat

record Choice =
  message :: "ChatMessage option"

record ChatResponse =
  choices :: "Choice list"

type_synonym chat_api = "Client \<Rightarrow> ChatRequest \<Rightarrow> thrown + ChatResponse"

type_synonym json_parser = "string \<Rightarrow> thrown + json"

text \<open>The object \<open>simulateAnalysis\<close> returns, as a value.\<close>

definition analysisToJson :: "LLMQueryAnalysis \<Rightarrow> json" where
  "analysisToJson a =
     JObject [(''location'', JString (location a)),
              (''businessType'', JString (businessType a)),
              (''contextualFactors'', JArray (map JString (contextualFactors a))),
              (''marketInsights'', JString (marketInsights a)),
              (''keyAssumptions'', JArray (map JString (keyAssumptions a)))]"

subsection \<open>The heuristic interpreter\<close>

definition cities :: "string list" where
  "cities = [''bangalore'', ''bengaluru'', ''delhi'', ''mumbai'', ''nairobi'', ''hyderabad'',
             ''kenya'', ''chennai'', ''pune'', ''kolkata'', ''ahmedabad'', ''jaipur'']"

text \<open>The entries of \<open>businessTypes\<close> in insertion order, the order \<open>Object.entries\<close> yields.\<close>

definition businessTypes :: "(string \<times> string) list" where
  "businessTypes =
     [(''chai'', ''Chai Stall''), (''tea'', ''Tea Shop''), (''coffee'', ''Coffee Shop''),
      (''pharmacy'', ''Pharmacy''), (''medical'', ''Medical Store''),
      (''restaurant'', ''Restaurant''), (''food'', ''Food Outlet''),
      (''gym'', ''Fitness Center''), (''school'', ''Educational Institution''),
      (''bank'', ''Banking Services''), (''atm'', ''ATM''), (''salon'', ''Beauty Salon''),
      (''spa'', ''Wellness Spa''), (''grocery'', ''Grocery Store''),
      (''supermarket'', ''Supermarket'')]"

text \<open>\<open>city.charAt(0).toUpperCase() + city.slice(1)\<close>\<close>

definition capitalize :: "string \<Rightarrow> string" where
  "capitalize city = (case city of [] \<Rightarrow> [] | c # cs \<Rightarrow> toUpperChar c # cs)"

text \<open>The two \<open>for ... break\<close> loops: the first entry that occurs in the query decides.\<close>

fun extractLocation :: "string \<Rightarrow> string list \<Rightarrow> string" where
  "extractLocation queryLower [] = ''Bangalore''"
| "extractLocation queryLower (city # rest) =
     (if str_includes queryLower city then capitalize city
      else extractLocation queryLower rest)"

fun extractBusinessType :: "string \<Rightarrow> (string \<times> string) list \<Rightarrow> string" where
  "extractBusinessType queryLower [] = ''Business''"
| "extractBusinessType queryLower ((keyword, type) # rest) =
     (if str_includes queryLower keyword then type
      else extractBusinessType queryLower rest)"

definition extractContextualFactors :: "string \<Rightarrow> string list" where
  "extractContextualFactors queryLower =
     (let f1 = (if str_includes queryLower ''it park'' \<or> str_includes queryLower ''tech park''
                then [''Proximity to IT/Tech Parks''] else []);
          f2 = (if str_includes queryLower ''residential''
                then f1 @ [''Residential Area Focus''] else f1);
          f3 = (if str_includes queryLower ''underserved'' \<or> str_includes queryLower ''gap''
                then f2 @ [''Market Gap Analysis Required''] else f2);
          f4 = (if str_includes queryLower ''commercial''
                then f3 @ [''Commercial Zone Priority''] else f3);
          f5 = (if str_includes queryLower ''metro'' \<or> str_includes queryLower ''transit''
                then f4 @ [''Metro/Transit Accessibility''] else f4)
      in if length f5 = 0
         then f5 @ [''General Commercial Viability'', ''Foot Traffic Potential'']
         else f5)"

definition simulateAnalysis :: "string \<Rightarrow> LLMQueryAnalysis" where
  "simulateAnalysis query =
     (let queryLower = toLowerCase query;
          loc = extractLocation queryLower cities;
          btype = extractBusinessType queryLower businessTypes;
          factors = extractContextualFactors queryLower;
          itParks = (''Proximity to IT/Tech Parks'' \<in> set factors);
          insights =
            ''Analyzing optimal locations for '' @ btype @ '' in '' @ loc @ ''. '' @
            (if length factors > 0
             then ''Key considerations include '' @
                  toLowerCase (joinWith '' and '' (take 2 factors)) @ ''. ''
             else []) @
            ''The analysis will identify high-footfall areas with good accessibility, visibility, and demographic alignment for your target customer base.'';
          assumptions =
            [''High demand areas are concentrated near major '' @
               (if itParks then ''IT parks and tech corridors'' else ''commercial zones''),
             btype @ '' performs best in areas with consistent daily foot traffic patterns'',
             ''Peak business hours align with '' @
               (if itParks then ''8-10 AM and 6-8 PM (IT crowd)''
                else ''standard 9 AM - 6 PM working hours''),
             ''Competition density in target area is moderate to high'']
      in \<lparr> location = loc, businessType = btype, contextualFactors = factors,
           marketInsights = insights, keyAssumptions = assumptions \<rparr>)"

subsection \<open>The LLM path and its fallback\<close>

definition isWhiteSpace :: "char \<Rightarrow> bool" where
  "isWhiteSpace c = (let n = (of_char c :: nat) in n = 32 \<or> (9 \<le> n \<and> n \<le> 13))"

definition trim :: "string \<Rightarrow> string" where
  "trim s = rev (dropWhile isWhiteSpace (rev (dropWhile isWhiteSpace s)))"

definition endsWith :: "string \<Rightarrow> string \<Rightarrow> bool" where
  "endsWith s suffix = startsWith (rev s) (rev suffix)"

text \<open>The removal of a Markdown code fence around the reply, before \<open>JSON.parse\<close>.\<close>

definition stripCodeFence :: "string \<Rightarrow> string" where
  "stripCodeFence content0 =
     (let j0 = trim content0;
          j1 = (if startsWith j0 ''```json'' then drop 7 j0 else j0);
          j2 = (if startsWith j1 ''```'' then drop 3 j1 else j1);
          j3 = (if endsWith j2 ''```'' then take (length j2 - 3) j2 else j2)
      in trim j3)"

text \<open>\<open>response.choices[0]?.message?.content\<close>: absent at any step gives \<open>undefined\<close>.\<close>

definition firstContent :: "ChatResponse \<Rightarrow> string option" where
  "firstContent response =
     (case choices response of
        [] \<Rightarrow> None
      | ch # _ \<Rightarrow> (case message ch of None \<Rightarrow> None | Some m \<Rightarrow> content m))"

definition chatRequest :: "LLMConfig \<Rightarrow> string \<Rightarrow> ChatRequest" where
  "chatRequest cfg query =
     \<lparr> model = (if LLM_PROVIDER cfg = ''ollama'' then OLLAMA_MODEL cfg
                 else ''gpt-3.5-turbo''),
       messages = [\<lparr> role = ''system'', content = Some SYSTEM_PROMPT \<rparr>,
                   \<lparr> role = ''user'', content = Some query \<rparr>],
       temperature = Some (7 / 10), max_tokens = 600 \<rparr>"

text \<open>The body of the \<open>try\<close> block: \<open>Inl\<close> is an exception that reaches the \<open>catch\<close>.\<close>

definition tryLLM :: "LLMConfig \<Rightarrow> chat_api \<Rightarrow> json_parser \<Rightarrow> string
    \<Rightarrow> thrown + json" where
  "tryLLM cfg create parse query =
     (case getClient cfg of
        None \<Rightarrow> Inr (analysisToJson (simulateAnalysis query))
      | Some client \<Rightarrow>
          (case create client (chatRequest cfg query) of
             Inl e \<Rightarrow> Inl e
           | Inr response \<Rightarrow>
               (case firstContent response of
                  None \<Rightarrow> Inl (Error ''No response from LLM'')
                | Some c \<Rightarrow>
                    if c = [] then Inl (Error ''No response from LLM'')
                    else parse (stripCodeFence c))))"

text \<open>
  The result of the asynchronous function: \<open>Inr\<close> when the promise is fulfilled,
  \<open>Inl\<close> when it is rejected.
\<close>

definition analyzeSpatialQuery :: "LLMConfig \<Rightarrow> chat_api \<Rightarrow> json_parser \<Rightarrow> string
    \<Rightarrow> thrown + json" where
  "analyzeSpatialQuery cfg create parse query =
     (if \<not> USE_LLM cfg \<or> LLM_PROVIDER cfg = ''simulate''
      then Inr (analysisToJson (simulateAnalysis query))
      else (case tryLLM cfg create parse query of
              Inl e \<Rightarrow> Inr (analysisToJson (simulateAnalysis query))
            | Inr analysis \<Rightarrow> Inr analysis))"

section \<open>City gazetteer (utils/poiClassifier.ts, utils/aiReasoning.ts)\<close>

text \<open>
  \<open>CITY_COORDINATES\<close> is an object literal read with a computed key. Such a read finds
  the object's own properties first and then the properties every object literal inherits
  from \<open>Object.prototype\<close>; only when both miss is the result \<open>undefined\<close>, the one
  case in which \<open>||\<close> takes its right operand (arrays, functions and objects are truthy).
\<close>

datatype 'a property = Own 'a | Inherited string | Undefined

definition objectPrototypeProperties :: "string list" where
  "objectPrototypeProperties =
     [''constructor'', ''__defineGetter__'', ''__defineSetter__'', ''hasOwnProperty'',
      ''__lookupGetter__'', ''__lookupSetter__'', ''isPrototypeOf'',
      ''propertyIsEnumerable'', ''toString'', ''valueOf'', ''__proto__'',
      ''toLocaleString'']"

definition getProperty :: "(string \<times> 'a) list \<Rightarrow> string \<Rightarrow> 'a property" where
  "getProperty obj key =
     (case map_of obj key of
        Some v \<Rightarrow> Own v
      | None \<Rightarrow> if key \<in> set objectPrototypeProperties then Inherited key else Undefined)"

definition orElse :: "'a property \<Rightarrow> 'a property \<Rightarrow> 'a property" where
  "orElse p q = (case p of Undefined \<Rightarrow> q | _ \<Rightarrow> p)"

definition CITY_COORDINATES :: "(string \<times> (rat \<times> rat)) list" where
  "CITY_COORDINATES =
     [(''bangalore'', (129716 / 10000, 775946 / 10000)),
      (''bengaluru'', (129716 / 10000, 775946 / 10000)),
      (''delhi'', (286139 / 10000, 772090 / 10000)),
      (''mumbai'', (190760 / 10000, 728777 / 10000)),
      (''nairobi'', (- (12921 / 10000), 368219 / 10000)),
      (''hyderabad'', (173850 / 10000, 784867 / 10000)),
      (''kenya'', (- (12921 / 10000), 368219 / 10000)),
      (''chennai'', (130827 / 10000, 802707 / 10000)),
      (''pune'', (185204 / 10000, 738567 / 10000)),
      (''kolkata'', (225726 / 10000, 883639 / 10000)),
      (''ahmedabad'', (230225 / 10000, 725714 / 10000)),
      (''jaipur'', (269124 / 10000, 757873 / 10000)),
      (''lucknow'', (268467 / 10000, 809462 / 10000)),
      (''kochi'', (99312 / 10000, 762673 / 10000)),
      (''chandigarh'', (307333 / 10000, 767794 / 10000))]"

text \<open>\<open>location.toLowerCase().replace(/\s+/g, '')\<close>\<close>

definition normalizeLocation :: "string \<Rightarrow> string" where
  "normalizeLocation loc = filter (\<lambda>c. \<not> isWhiteSpace c) (toLowerCase loc)"

definition getCityCoordinates :: "string \<Rightarrow> (rat \<times> rat) property" where
  "getCityCoordinates loc =
     orElse (getProperty CITY_COORDINATES (normalizeLocation loc))
            (getProperty CITY_COORDINATES ''bangalore'')"

section \<open>Analysis orchestrator (utils/aiReasoning.ts)\<close>

text \<open>
  \<open>Math.random()\<close> and \<open>Date.now()\<close> read the runtime: the model passes it along as
  the sequence of values the coming calls return, together with the engine's text of a
  number. A \<open>number\<close> that may be \<open>NaN\<close> (a coordinate read from something that is
  not a pair) is a \<open>number\<close> below.
\<close>

record Runtime =
  randoms :: "nat \<Rightarrow> rat"
  clock :: "nat \<Rightarrow> nat"
  numberText :: "rat \<Rightarrow> string"

definition Math_random :: "Runtime \<Rightarrow> rat \<times> Runtime" where
  "Math_random rt = (randoms rt 0, rt\<lparr> randoms := (\<lambda>n. randoms rt (Suc n)) \<rparr>)"

definition Date_now :: "Runtime \<Rightarrow> nat \<times> Runtime" where
  "Date_now rt = (clock rt 0, rt\<lparr> clock := (\<lambda>n. clock rt (Suc n)) \<rparr>)"

datatype number = Num rat | NaN

definition coordinate :: "(rat \<times> rat) property \<Rightarrow> nat \<Rightarrow> number" where
  "coordinate coords i =
     (case coords of
        Own (a, b) \<Rightarrow> if i = 0 then Num a else if i = 1 then Num b else NaN
      | _ \<Rightarrow> NaN)"

definition plus_number :: "number \<Rightarrow> rat \<Rightarrow> number" where
  "plus_number x d = (case x of Num a \<Rightarrow> Num (a + d) | NaN \<Rightarrow> NaN)"

fun showNat :: "nat \<Rightarrow> string" where
  "showNat n =
     (if n < 10 then [char_of (48 + n)]
      else showNat (n div 10) @ [char_of (48 + n mod 10)])"

definition showInt :: "int \<Rightarrow> string" where
  "showInt i = (if i < 0 then CHR ''-'' # showNat (nat (- i)) else showNat (nat i))"

text \<open>\<open>Math.round\<close>: the nearest integer, a half rounded up.\<close>

definition Math_round :: "rat \<Rightarrow> int" where
  "Math_round x = \<lfloor>x + 1 / 2\<rfloor>"

text \<open>\<open>xs[i]\<close> on an array: \<open>undefined\<close> out of range.\<close>

definition element :: "'a list \<Rightarrow> nat \<Rightarrow> 'a option" where
  "element xs i = (if i < length xs then Some (xs ! i) else None)"

record Attributes =
  hours :: "string option"
  rating :: "rat option"
  tags :: "string list option"

record POIData =
  poi_id :: string
  poi_name :: "string option"
  poi_category :: string
  lat :: number
  lng :: number
  poi_confidence :: rat
  verified :: bool
  attributes :: Attributes

record AIReasoning =
  interpretation_text :: json
  suggestedLocations :: "POIData list"
  assumptions :: json
  ai_confidence :: rat

record GroundTruth =
  verifiedPOIs :: "POIData list"
  corrections :: "string list"
  gaps :: "string list"
  accuracy :: int

record Visualization =
  center :: "(rat \<times> rat) property"
  zoom :: nat

record AnalysisResult =
  query :: string
  aiReasoning :: AIReasoning
  groundTruth :: GroundTruth
  recommendation :: string
  visualization :: Visualization

text \<open>
  The call \<open>getCityCoordinates(location)\<close> with whatever the reply held as its
  location: \<open>location.toLowerCase()\<close> throws unless it is a string.
\<close>

definition callGetCityCoordinates :: "json \<Rightarrow> thrown + (rat \<times> rat) property" where
  "callGetCityCoordinates loc =
     (case loc of
        JString s \<Rightarrow> Inr (getCityCoordinates s)
      | _ \<Rightarrow> Inl (methodTypeError ''location'' ''toLowerCase'' loc))"

definition locationNames :: "string \<Rightarrow> (string \<times> string list) list" where
  "locationNames btype =
     [(''location'',
        [''Prime '' @ btype @ '' Zone - High Traffic'',
         btype @ '' Hotspot - Tech Corridor'',
         ''Emerging '' @ btype @ '' District'',
         ''Premium '' @ btype @ '' Location'',
         ''Strategic '' @ btype @ '' Point'']),
      (''market'',
        [''Underserved Market - '' @ btype,
         ''High Growth Potential Zone'',
         ''Market Gap - '' @ btype @ '' Opportunity'',
         ''Emerging Consumer Hub'',
         ''Untapped '' @ btype @ '' Market'']),
      (''competitor'',
        [''Low Competition Zone'', ''Competitor Weak Spot'', ''Market Share Opportunity'',
         ''Strategic Entry Point'', ''Competition Gap Area'']),
      (''optimize'',
        [''Optimal Coverage Point'', ''Network Efficiency Zone'', ''Supply Chain Hub'',
         ''Logistics Optimization Point'', ''Resource Efficiency Location''])]"

text \<open>
  \<open>contextFactors.some(f => p(f.toLowerCase()))\<close>: throws unless \<open>contextFactors\<close> is
  an array; visits the elements in order, stops at the first that satisfies \<open>p\<close>, and
  throws at an element that is not a string.
\<close>

fun someElement :: "(string \<Rightarrow> bool) \<Rightarrow> json list \<Rightarrow> thrown + bool" where
  "someElement p [] = Inr False"
| "someElement p (f # fs) =
     (case f of
        JString s \<Rightarrow> if p (toLowerCase s) then Inr True else someElement p fs
      | _ \<Rightarrow> Inl (methodTypeError ''f'' ''toLowerCase'' f))"

definition someFactor :: "(string \<Rightarrow> bool) \<Rightarrow> json \<Rightarrow> thrown + bool" where
  "someFactor p contextFactors =
     (case contextFactors of
        JArray fs \<Rightarrow> someElement p fs
      | _ \<Rightarrow> Inl (methodTypeError ''contextFactors'' ''some'' contextFactors))"

text \<open>\<open>f.toLowerCase().includes('it') || f.toLowerCase().includes('tech')\<close> for some factor.\<close>

definition hasITContext :: "json \<Rightarrow> thrown + bool" where
  "hasITContext contextFactors =
     someFactor (\<lambda>l. str_includes l ''it'' \<or> str_includes l ''tech'') contextFactors"

text \<open>\<open>names[i]\<close>, where \<open>names\<close> may be an inherited property, which has no elements.\<close>

definition nameAt :: "string list property \<Rightarrow> nat \<Rightarrow> string option" where
  "nameAt names i = (case names of Own xs \<Rightarrow> element xs i | _ \<Rightarrow> None)"

definition aiSuggestion :: "string list property \<Rightarrow> (rat \<times> rat) property \<Rightarrow> bool \<Rightarrow> nat
    \<Rightarrow> Runtime \<Rightarrow> POIData \<times> Runtime" where
  "aiSuggestion names coords itContext i rt0 =
     (let (now, rt1) = Date_now rt0;
          (r1, rt2) = Math_random rt1;
          (r2, rt3) = Math_random rt2;
          (r3, rt4) = Math_random rt3
      in (\<lparr> poi_id = ''ai_'' @ showNat now @ ''_'' @ showNat i,
            poi_name = nameAt names i,
            poi_category = ''ai_suggested'',
            lat = plus_number (coordinate coords 0) ((r1 - 5 / 10) * (4 / 100)),
            lng = plus_number (coordinate coords 1) ((r2 - 5 / 10) * (4 / 100)),
            poi_confidence = 55 / 100 + r3 * (25 / 100),
            verified = False,
            attributes =
              \<lparr> hours = Some (if itContext then ''7 AM - 10 PM'' else ''9 AM - 9 PM''),
                rating = None,
                tags = Some [''AI Generated'',
                             if itContext then ''Tech Zone'' else ''Commercial Zone''] \<rparr> \<rparr>,
          rt4))"

text \<open>One turn of a \<open>for\<close> loop that pushes a POI made at index \<open>i\<close>.\<close>

definition pushPOI :: "(nat \<Rightarrow> Runtime \<Rightarrow> POIData \<times> Runtime) \<Rightarrow> nat
    \<Rightarrow> POIData list \<times> Runtime \<Rightarrow> POIData list \<times> Runtime" where
  "pushPOI mk i st = (let (p, rt') = mk i (snd st) in (fst st @ [p], rt'))"

text \<open>
  In the order of the source: the coordinates (which read \<open>location\<close>), the name table
  (whose templates convert \<open>businessType\<close>), the key \<open>queryType || 'location'\<close>
  (converted to a property key), and the loop of five turns, each of which evaluates the
  same test on the factors before it pushes.
\<close>

definition generateAISuggestions :: "json \<Rightarrow> json \<Rightarrow> json \<Rightarrow> json \<Rightarrow> Runtime
    \<Rightarrow> thrown + POIData list \<times> Runtime" where
  "generateAISuggestions loc btype contextFactors queryType rt =
     andThen (callGetCityCoordinates loc) (\<lambda>coords.
     andThen (ToString (numberText rt) btype) (\<lambda>b.
     andThen (if falsy queryType then Inr ''location''
              else ToString (numberText rt) queryType) (\<lambda>key.
     andThen (hasITContext contextFactors) (\<lambda>itContext.
       Inr (fold (pushPOI (aiSuggestion
                    (orElse (getProperty (locationNames b) key)
                            (getProperty (locationNames b) ''location''))
                    coords itContext))
              [0 ..< 5] ([], rt))))))"

definition verifiedNames :: "string \<Rightarrow> string list" where
  "verifiedNames btype =
     [''Verified: '' @ btype @ '' - Prime Location'',
      ''Validated: High-Traffic '' @ btype @ '' Zone'',
      ''Confirmed: '' @ btype @ '' Opportunity'',
      ''Ground Truth: Optimal '' @ btype @ '' Spot'']"

definition verifiedPOI :: "string \<Rightarrow> (rat \<times> rat) property \<Rightarrow> nat \<Rightarrow> Runtime
    \<Rightarrow> POIData \<times> Runtime" where
  "verifiedPOI btype coords i rt0 =
     (let (now, rt1) = Date_now rt0;
          (r1, rt2) = Math_random rt1;
          (r2, rt3) = Math_random rt2;
          (r3, rt4) = Math_random rt3;
          (r4, rt5) = Math_random rt4
      in (\<lparr> poi_id = ''verified_'' @ showNat now @ ''_'' @ showNat i,
            poi_name =
              (case element (verifiedNames btype) i of
                 Some n \<Rightarrow> if n \<noteq> [] then Some n
                           else Some (''Verified Location '' @ showNat (i + 1))
               | None \<Rightarrow> Some (''Verified Location '' @ showNat (i + 1))),
            poi_category = ''ground_truth_verified'',
            lat = plus_number (coordinate coords 0) ((r1 - 5 / 10) * (35 / 1000)),
            lng = plus_number (coordinate coords 1) ((r2 - 5 / 10) * (35 / 1000)),
            poi_confidence = 82 / 100 + r3 * (13 / 100),
            verified = True,
            attributes =
              \<lparr> hours = Some ''Based on verified operating patterns'',
                rating = Some (35 / 10 + r4 * (15 / 10)),
                tags = Some [''POI Classifier Validated'', ''Ground Truth''] \<rparr> \<rparr>,
          rt5))"

text \<open>
  \<open>validCount\<close> is \<open>Math.floor(aiSuggestions.length * validationRate)\<close>; the loop
  \<open>for (i = 0; i < validCount; i++)\<close> makes no turn when it is not positive.
\<close>

definition validCount :: "nat \<Rightarrow> rat \<Rightarrow> int" where
  "validCount n r = \<lfloor>of_nat n * (60 / 100 + r * (10 / 100))\<rfloor>"

definition validateWithGroundTruth :: "POIData list \<Rightarrow> json \<Rightarrow> json \<Rightarrow> Runtime
    \<Rightarrow> thrown + POIData list \<times> Runtime" where
  "validateWithGroundTruth aiSuggestions loc btype rt0 =
     andThen (callGetCityCoordinates loc) (\<lambda>coords.
       (let (r, rt1) = Math_random rt0
        in andThen (ToString (numberText rt0) btype) (\<lambda>b.
             Inr (fold (pushPOI (verifiedPOI b coords))
                    [0 ..< nat (validCount (length aiSuggestions) r)] ([], rt1)))))"

definition identifyCorrectionsAndGaps :: "json \<Rightarrow> json \<Rightarrow> json \<Rightarrow> Runtime
    \<Rightarrow> thrown + (string list \<times> string list) \<times> Runtime" where
  "identifyCorrectionsAndGaps contextFactors btype loc rt0 =
     andThen (hasITContext contextFactors) (\<lambda>itContext.
       (let corr =
              (if itContext
               then [''AI assumed standard commercial hours; actual IT park peak times are 8-10 AM and 6-8 PM'',
                     ''AI suggested general commercial areas; IT corridors have different foot traffic patterns'']
               else [''AI overestimated foot traffic in suggested Zone 2 by approximately 35%'',
                     ''Competition density in AI's top pick is higher than estimated (4 similar businesses within 500m)'']);
            (r, rt1) = Math_random rt0
        in andThen (ToString (numberText rt0) btype) (\<lambda>b.
           andThen (ToString (numberText rt0) loc) (\<lambda>l.
             (let gaps0 =
                    [''Identified '' @ showInt (\<lfloor>r * 3\<rfloor> + 2) @
                       '' underserved neighborhoods with high demand potential'',
                     ''Found market gap: No '' @ b @ '' within 1km of '' @ l @
                       '' Central Metro Station'']
              in andThen (someFactor (\<lambda>s. str_includes s ''residential'') contextFactors)
                   (\<lambda>residentialContext.
                      Inr ((corr,
                            if residentialContext
                            then gaps0 @ [''Residential zones in '' @ l @
                                           '' East show 40% higher demand than current supply'']
                            else gaps0),
                           rt1)))))))"

text \<open>
  The recommendation text. The decorations of the template are outside ASCII; they are
  written as their UTF-8 bytes.
\<close>

definition ruleLine :: string where
  "ruleLine = concat (replicate 52 [CHR 0xE2, CHR 0x94, CHR 0x81])"

definition generateRecommendation :: "(rat \<Rightarrow> string) \<Rightarrow> json \<Rightarrow> json \<Rightarrow> POIData list
    \<Rightarrow> string list \<Rightarrow> string list \<Rightarrow> thrown + string" where
  "generateRecommendation numText btype loc verif corr gps =
     (let topLocation =
            (case verif of [] \<Rightarrow> ''No optimal location identified''
             | p # _ \<Rightarrow> (case poi_name p of Some n \<Rightarrow> n | None \<Rightarrow> ''undefined''));
          conf = (case verif of [] \<Rightarrow> 0 | p # _ \<Rightarrow> Math_round (poi_confidence p * 100))
      in andThen (ToString numText btype) (\<lambda>b.
         andThen (ToString numText loc) (\<lambda>l.
           Inr (joinWith newline
             [ruleLine,
              [CHR 0xF0, CHR 0x9F, CHR 0x93, CHR 0x8A] @ '' ANALYSIS SUMMARY: '' @
                b @ '' in '' @ l,
              ruleLine,
              [],
              [CHR 0xE2, CHR 0x9C, CHR 0x85] @ '' Verified Locations: '' @
                showNat (length verif),
              [CHR 0xE2, CHR 0x9A, CHR 0xA0, CHR 0xEF, CHR 0xB8, CHR 0x8F] @
                ''  AI Corrections Made: '' @ showNat (length corr),
              [CHR 0xF0, CHR 0x9F, CHR 0x94, CHR 0x8D] @ '' Market Gaps Found: '' @
                showNat (length gps),
              [],
              ruleLine,
              [CHR 0xF0, CHR 0x9F, CHR 0x8E, CHR 0xAF] @ '' TOP RECOMMENDATION'',
              ruleLine,
              [],
              ''Location: '' @ topLocation,
              ''Confidence: '' @ showInt conf @ ''% (grounded in POI data)'',
              [],
              ''This recommendation is validated against real-world POI '',
              ''data using our 61% accuracy classifier, ensuring AI '',
              ''reasoning is grounded in physical reality.'',
              []]))))"

text \<open>
  \<open>const { location, businessType, ... } = llmAnalysis\<close>: a \<open>TypeError\<close> on \<open>null\<close>
  and \<open>undefined\<close>, otherwise the reply as it is, its absent properties \<open>undefined\<close>.
\<close>

definition destructureAnalysis :: "json \<Rightarrow> thrown + json" where
  "destructureAnalysis llmAnalysis =
     (case llmAnalysis of
        JUndefined \<Rightarrow>
          Inl (Error ''Cannot destructure property 'location' of 'llmAnalysis' as it is undefined.'')
      | JNull \<Rightarrow>
          Inl (Error ''Cannot destructure property 'location' of 'llmAnalysis' as it is null.'')
      | _ \<Rightarrow> Inr llmAnalysis)"

text \<open>
  \<open>analyzeQuery\<close>: \<open>Inr\<close> when the promise is fulfilled with a result, \<open>Inl\<close> when
  it is rejected. \<open>queryType\<close> is whatever the caller passes (the handler passes the
  field of the request body unchecked), \<open>undefined\<close> when absent.
\<close>

definition analyzeQuery :: "LLMConfig \<Rightarrow> chat_api \<Rightarrow> json_parser \<Rightarrow> Runtime \<Rightarrow> string
    \<Rightarrow> json \<Rightarrow> thrown + AnalysisResult" where
  "analyzeQuery cfg create parse rt0 q queryType =
     andThen (analyzeSpatialQuery cfg create parse q) (\<lambda>reply.
     andThen (destructureAnalysis reply) (\<lambda>llmAnalysis.
       (let loc = field llmAnalysis ''location'';
            btype = field llmAnalysis ''businessType'';
            factors = field llmAnalysis ''contextualFactors''
        in andThen (generateAISuggestions loc btype factors queryType rt0)
             (\<lambda>(aiSuggestions, rt1).
           andThen (validateWithGroundTruth aiSuggestions loc btype rt1) (\<lambda>(verif, rt2).
           andThen (identifyCorrectionsAndGaps factors btype loc rt2)
             (\<lambda>((corr, gps), rt3).
             (let acc = Math_round (of_nat (length verif) /
                                    of_nat (max (length aiSuggestions) 1) * 100);
                  (r, rt4) = Math_random rt3
              in andThen (generateRecommendation (numberText rt0) btype loc verif corr gps)
                   (\<lambda>recText.
                 andThen (callGetCityCoordinates loc) (\<lambda>cityCenter.
                   Inr \<lparr> query = q,
                         aiReasoning =
                           \<lparr> interpretation_text = field llmAnalysis ''marketInsights'',
                             suggestedLocations = aiSuggestions,
                             assumptions = field llmAnalysis ''keyAssumptions'',
                             ai_confidence = 72 / 100 + r * (8 / 100) \<rparr>,
                         groundTruth =
                           \<lparr> verifiedPOIs = verif, corrections = corr, gaps = gps,
                             accuracy = min acc 70 \<rparr>,
                         recommendation = recText,
                         visualization = \<lparr> center = cityCenter, zoom = 13 \<rparr> \<rparr>)))))))))"

section \<open>HTTP boundary: the analyze handler (pages/api/analyze.ts)\<close>

text \<open>
  The request body is whatever the framework parsed. The orchestrator is imported by the
  handler and is a parameter here; the run records the calls made to it.
\<close>

record Request =
  req_method :: string
  req_body :: json

datatype 'r response_body =
    ErrorBody string
  | FailureBody string string
  | ResultBody 'r

record 'r Response =
  status :: nat
  body :: "'r response_body"

record 'r HandlerRun =
  response :: "'r Response"
  orchestratorCalls :: "(string \<times> json) list"

type_synonym 'r orchestrator = "string \<Rightarrow> json \<Rightarrow> thrown + 'r"

text \<open>
  \<open>const { query, queryType } = req.body\<close>: a \<open>TypeError\<close> on \<open>null\<close> and
  \<open>undefined\<close>; a property that is absent reads as \<open>undefined\<close>.
\<close>

definition destructure :: "json \<Rightarrow> thrown + json \<times> json" where
  "destructure b =
     (case b of
        JUndefined \<Rightarrow>
          Inl (Error ''Cannot destructure property 'query' of 'req.body' as it is undefined.'')
      | JNull \<Rightarrow>
          Inl (Error ''Cannot destructure property 'query' of 'req.body' as it is null.'')
      | _ \<Rightarrow> Inr (field b ''query'', field b ''queryType''))"

definition typeof :: "json \<Rightarrow> string" where
  "typeof v =
     (case v of
        JUndefined \<Rightarrow> ''undefined''
      | JBool _ \<Rightarrow> ''boolean''
      | JNumber _ \<Rightarrow> ''number''
      | JString _ \<Rightarrow> ''string''
      | _ \<Rightarrow> ''object'')"

text \<open>\<open>error instanceof Error ? error.message : 'Unknown error'\<close>\<close>

definition errorDetails :: "thrown \<Rightarrow> string" where
  "errorDetails e = (case e of Error m \<Rightarrow> m | OtherValue \<Rightarrow> ''Unknown error'')"

definition failed :: "thrown \<Rightarrow> (string \<times> json) list \<Rightarrow> 'r HandlerRun" where
  "failed e calls =
     \<lparr> response = \<lparr> status = 500,
                      body = FailureBody ''Failed to analyze query'' (errorDetails e) \<rparr>,
       orchestratorCalls = calls \<rparr>"

text \<open>The query once the guard has established that it is a string.\<close>

definition stringValue :: "json \<Rightarrow> string" where
  "stringValue v = (case v of JString s \<Rightarrow> s | _ \<Rightarrow> [])"

definition handler :: "'r orchestrator \<Rightarrow> Request \<Rightarrow> 'r HandlerRun" where
  "handler analyze req =
     (if req_method req \<noteq> ''POST''
      then \<lparr> response = \<lparr> status = 405, body = ErrorBody ''Method not allowed'' \<rparr>,
             orchestratorCalls = [] \<rparr>
      else
        (case destructure (req_body req) of
           Inl e \<Rightarrow> failed e []
         | Inr (qv, queryType) \<Rightarrow>
             if falsy qv \<or> typeof qv \<noteq> ''string''
             then \<lparr> response = \<lparr> status = 400, body = ErrorBody ''Query is required'' \<rparr>,
                    orchestratorCalls = [] \<rparr>
             else
               (let q = stringValue qv in
                case analyze q queryType of
                  Inl e \<Rightarrow> failed e [(q, queryType)]
                | Inr result \<Rightarrow>
                    \<lparr> response = \<lparr> status = 200, body = ResultBody result \<rparr>,
                      orchestratorCalls = [(q, queryType)] \<rparr>)))"

text \<open>The endpoint: the handler with the orchestrator it imports.\<close>

definition analyzeEndpoint :: "LLMConfig \<Rightarrow> chat_api \<Rightarrow> json_parser \<Rightarrow> Runtime \<Rightarrow> Request
    \<Rightarrow> AnalysisResult HandlerRun" where
  "analyzeEndpoint cfg create parse rt req = handler (analyzeQuery cfg create parse rt) req"

section \<open>Predicates of the specification and sample inputs\<close>

text \<open>A name that contains a taxonomy keyword, after the lower-casing the classifier does.\<close>

definition nameHasKeyword :: "string \<Rightarrow> bool" where
  "nameHasKeyword name =
     (\<exists>c \<in> set POI_CATEGORIES. \<exists>k \<in> set (category_keywords c).
        str_includes (toLowerCase name) k)"

text \<open>A context that is looked at and in which a contextual rule of some category occurs.\<close>

definition contextMatches :: "string option \<Rightarrow> bool" where
  "contextMatches context =
     (case context of
        None \<Rightarrow> False
      | Some ctx \<Rightarrow> ctx \<noteq> [] \<and>
          (\<exists>c \<in> set POI_CATEGORIES. \<exists>r \<in> set (contextualRules c).
             str_includes (toLowerCase ctx) (toLowerCase r)))"

text \<open>The contract of \<open>Math.random()\<close>: every value it returns lies in \<open>[0, 1)\<close>.\<close>

definition validRandoms :: "Runtime \<Rightarrow> bool" where
  "validRandoms rt = (\<forall>n. 0 \<le> randoms rt n \<and> randoms rt n < 1)"

definition ollamaConfig :: LLMConfig where
  "ollamaConfig = \<lparr> USE_LLM = True, LLM_PROVIDER = ''ollama'',
     OLLAMA_BASE_URL = ''http://localhost:11434/v1'', OLLAMA_MODEL = ''llama3.2'',
     OPENAI_API_KEY = None \<rparr>"

definition ollamaClient :: Client where
  "ollamaClient = \<lparr> baseURL = Some ''http://localhost:11434/v1'', apiKey = Some ''ollama'',
                  dangerouslyAllowBrowser = True \<rparr>"

definition networkDown :: chat_api where
  "networkDown client request = Inl (Error ''fetch failed'')"

definition emptyReply :: chat_api where
  "emptyReply client request =
     Inr \<lparr> choices = [\<lparr> message = Some \<lparr> role = ''assistant'', content = Some [] \<rparr> \<rparr>] \<rparr>"

definition proseReply :: chat_api where
  "proseReply client request =
     Inr \<lparr> choices = [\<lparr> message = Some \<lparr> role = ''assistant'',
                                          content = Some ''Sure! Here you go'' \<rparr> \<rparr>] \<rparr>"

definition rejectingParser :: json_parser where
  "rejectingParser text = Inl (Error ''Unexpected token'')"

definition chaiQuery :: string where
  "chaiQuery = ''Where should I open a chai stall near IT parks in Bangalore?''"

definition steadyRuntime :: Runtime where
  "steadyRuntime =
     \<lparr> randoms = (\<lambda>n. 1 / 2), clock = (\<lambda>n. 1700000000000 + n),
       numberText = (\<lambda>x. showInt \<lfloor>x\<rfloor>) \<rparr>"

definition jsonReply :: chat_api where
  "jsonReply client request =
     Inr \<lparr> choices = [\<lparr> message = Some \<lparr> role = ''assistant'', content = Some ''{}'' \<rparr> \<rparr>] \<rparr>"

definition emptyObjectParser :: json_parser where
  "emptyObjectParser text = Inr (JObject [])"

definition emptyQueryRequest :: Request where
  "emptyQueryRequest =
     \<lparr> req_method = ''POST'', req_body = JObject [(''query'', JString [])] \<rparr>"

definition getRequest :: Request where
  "getRequest =
     \<lparr> req_method = ''GET'', req_body = JObject [(''query'', JString ''gym in Pune'')] \<rparr>"

definition noQueryRequest :: Request where
  "noQueryRequest = \<lparr> req_method = ''POST'', req_body = JObject [] \<rparr>"

definition gymRequest :: Request where
  "gymRequest =
     \<lparr> req_method = ''POST'',
       req_body = JObject [(''query'', JString ''gym in Pune''),
                           (''queryType'', JString ''market'')] \<rparr>"

definition echoOrchestrator :: "string orchestrator" where
  "echoOrchestrator q queryType = Inr q"

definition brokenOrchestrator :: "string orchestrator" where
  "brokenOrchestrator q queryType = Inl (Error ''boom'')"

subsection \<open>Keyword hits: the classifier without a context, in two steps\<close>

text \<open>
  For a lower-cased name, the categories with at least one keyword in it, in declaration
  order, each with the number of its keywords found; and the choice \<open>classifyPOI\<close> makes
  from these numbers. \<open>classifyPOI_keywordHits\<close> below proves that the two steps
  compute \<open>classifyPOI\<close>.
\<close>

definition keywordHits :: "string \<Rightarrow> (string \<times> nat) list" where
  "keywordHits n =
     filter (\<lambda>(cid, h). 0 < h)
       (map (\<lambda>d. (category_id d, length (filter (str_includes n) (category_keywords d))))
          POI_CATEGORIES)"

definition pickStep :: "string \<times> nat \<Rightarrow> Classification \<Rightarrow> Classification" where
  "pickStep ch best =
     (let conf = min (35 / 100 * of_nat (snd ch)) (95 / 100)
      in if conf > confidence best then \<lparr> category = fst ch, confidence = conf \<rparr> else best)"

definition pickBest :: "(string \<times> nat) list \<Rightarrow> Classification" where
  "pickBest chs = fold pickStep chs \<lparr> category = ''unknown'', confidence = 3 / 10 \<rparr>"

text \<open>
  The keywords that also hit a category declared earlier, which keeps the tie, and the
  one keyword written with capitals, which the lower-cased name never contains.
\<close>

definition firstSeenWins :: "(string \<times> string) list" where
  "firstSeenWins =
     [(''technology'', ''tech park''), (''technology'', ''office''),
      (''automotive'', ''workshop''), (''fitness'', ''health club'')]"

definition mixedCaseKeywords :: "(string \<times> string) list" where
  "mixedCaseKeywords = [(''technology'', ''IT park'')]"

definition ownKeywordWins :: "POICategory \<Rightarrow> string \<Rightarrow> Classification \<Rightarrow> bool" where
  "ownKeywordWins c k result =
     ((category_id c, k) \<notin> set firstSeenWins \<and> (category_id c, k) \<notin> set mixedCaseKeywords \<longrightarrow>
        category result = category_id c \<and>
        35 / 100 \<le> confidence result \<and> confidence result \<le> 95 / 100)"

section \<open>Properties of the interpreter\<close>

lemma analyzeSpatialQuery_fulfilled:
  "\<exists>reply. analyzeSpatialQuery cfg create parse q = Inr reply"
  by (simp add: analyzeSpatialQuery_def split: sum.split)

lemma tryLLM_failure_caught:
  assumes "tryLLM cfg create parse q = Inl e"
  shows "analyzeSpatialQuery cfg create parse q = Inr (analysisToJson (simulateAnalysis q))"
  using assms by (simp add: analyzeSpatialQuery_def)

text \<open>
  Claim C5. In LLM mode with a client, when the chat-completion call throws (network
  error, timeout), or its reply has no content or empty content, or the content does not
  parse, \<open>analyzeSpatialQuery\<close> is fulfilled with the heuristic interpretation of the same
  query: the failure does not reach the caller.
\<close>

theorem llm_failure_falls_back:
  assumes mode: "USE_LLM cfg" "getClient cfg = Some client"
    and failure:
      "(\<exists>e. create client (chatRequest cfg q) = Inl e) \<or>
       (\<exists>resp. create client (chatRequest cfg q) = Inr resp \<and>
          (firstContent resp = None \<or> firstContent resp = Some [])) \<or>
       (\<exists>resp c e. create client (chatRequest cfg q) = Inr resp \<and>
          firstContent resp = Some c \<and> parse (stripCodeFence c) = Inl e)"
  shows "analyzeSpatialQuery cfg create parse q = Inr (analysisToJson (simulateAnalysis q))"
proof -
  from failure have "\<exists>e. tryLLM cfg create parse q = Inl e"
    using mode(2) by (auto simp: tryLLM_def)
  then show ?thesis using tryLLM_failure_caught by blast
qed

theorem llm_failure_falls_back_witness:
  "USE_LLM ollamaConfig \<and> getClient ollamaConfig = Some ollamaClient \<and>
   analyzeSpatialQuery ollamaConfig networkDown rejectingParser ''pharmacy in Pune''
     = Inr (analysisToJson (simulateAnalysis ''pharmacy in Pune'')) \<and>
   analyzeSpatialQuery ollamaConfig emptyReply rejectingParser ''pharmacy in Pune''
     = Inr (analysisToJson (simulateAnalysis ''pharmacy in Pune'')) \<and>
   analyzeSpatialQuery ollamaConfig proseReply rejectingParser ''pharmacy in Pune''
     = Inr (analysisToJson (simulateAnalysis ''pharmacy in Pune''))"
proof -
  have m1: "USE_LLM ollamaConfig" by (simp add: ollamaConfig_def)
  have m2: "getClient ollamaConfig = Some ollamaClient"
    by (simp add: ollamaConfig_def ollamaClient_def getClient_def)
  have a: "analyzeSpatialQuery ollamaConfig networkDown rejectingParser ''pharmacy in Pune''
     = Inr (analysisToJson (simulateAnalysis ''pharmacy in Pune''))"
    by (rule llm_failure_falls_back [OF m1 m2]) (simp add: networkDown_def)
  have b: "analyzeSpatialQuery ollamaConfig emptyReply rejectingParser ''pharmacy in Pune''
     = Inr (analysisToJson (simulateAnalysis ''pharmacy in Pune''))"
    by (rule llm_failure_falls_back [OF m1 m2]) (simp add: emptyReply_def firstContent_def)
  have c: "analyzeSpatialQuery ollamaConfig proseReply rejectingParser ''pharmacy in Pune''
     = Inr (analysisToJson (simulateAnalysis ''pharmacy in Pune''))"
    by (rule llm_failure_falls_back [OF m1 m2])
       (simp add: proseReply_def firstContent_def rejectingParser_def)
  from m1 m2 a b c show ?thesis by simp
qed

lemma chai_location: "location (simulateAnalysis chaiQuery) = ''Bangalore''"
  by code_simp

lemma chai_businessType: "businessType (simulateAnalysis chaiQuery) = ''Chai Stall''"
  by code_simp

lemma chai_factors:
  "contextualFactors (simulateAnalysis chaiQuery) = [''Proximity to IT/Tech Parks'']"
  by code_simp

text \<open>
  Claim C6. With LLM mode disabled the interpreter returns \<open>simulateAnalysis\<close> of the
  query, a function of the query string alone, whatever the endpoint and the parser would
  do; for the chai-stall query it yields location \<open>Bangalore\<close>, business type
  \<open>Chai Stall\<close> and a factor list that contains \<open>Proximity to IT/Tech Parks\<close>.
\<close>

theorem heuristic_deterministic:
  "analyzeSpatialQuery (cfg\<lparr> USE_LLM := False \<rparr>) create parse q
     = Inr (analysisToJson (simulateAnalysis q)) \<and>
   location (simulateAnalysis chaiQuery) = ''Bangalore'' \<and>
   businessType (simulateAnalysis chaiQuery) = ''Chai Stall'' \<and>
   ''Proximity to IT/Tech Parks'' \<in> set (contextualFactors (simulateAnalysis chaiQuery))"
  by (simp add: analyzeSpatialQuery_def chai_location chai_businessType chai_factors)

theorem heuristic_deterministic_witness:
  "analyzeSpatialQuery (ollamaConfig\<lparr> USE_LLM := False \<rparr>) networkDown rejectingParser
     chaiQuery = Inr (analysisToJson (simulateAnalysis chaiQuery)) \<and>
   location (simulateAnalysis chaiQuery) = ''Bangalore''"
  using heuristic_deterministic [of ollamaConfig networkDown rejectingParser chaiQuery]
  by simp

section \<open>Properties of the classifier\<close>

lemma fold_unchanged: "(\<And>x. x \<in> set xs \<Longrightarrow> f x s = s) \<Longrightarrow> fold f xs s = s"
  by (induction xs) simp_all

lemma keywordScore_none:
  assumes "\<forall>k \<in> set kws. \<not> str_includes n k"
  shows "keywordScore n kws = 0"
  unfolding keywordScore_def using assms by (intro fold_unchanged) simp

lemma contextScore_none:
  assumes "\<forall>r \<in> set rules. \<not> str_includes cl (toLowerCase r)"
  shows "contextScore cl rules s = s"
  unfolding contextScore_def using assms by (intro fold_unchanged) simp

lemma categoryConfidence_none:
  assumes kw: "\<forall>k \<in> set (category_keywords c). \<not> str_includes n k"
    and ctx: "\<And>cx. context = Some cx \<Longrightarrow> cx \<noteq> [] \<Longrightarrow>
      \<forall>r \<in> set (contextualRules c). \<not> str_includes (toLowerCase cx) (toLowerCase r)"
  shows "categoryConfidence n context c = 0"
proof (cases "truthy context")
  case True
  then obtain cx where c: "context = Some cx" "cx \<noteq> []"
    by (cases "context") (simp_all add: truthy_def)
  with ctx have "contextScore (toLowerCase cx) (contextualRules c) 0 = 0"
    by (intro contextScore_none) simp
  with True c kw show ?thesis
    by (simp add: categoryConfidence_def keywordScore_none)
next
  case False
  with kw show ?thesis by (simp add: categoryConfidence_def keywordScore_none)
qed

lemma classifyPOI_no_match:
  assumes "\<not> nameHasKeyword name" and "\<not> contextMatches context"
  shows "classifyPOI name context = \<lparr> category = ''unknown'', confidence = 3 / 10 \<rparr>"
proof -
  have "classifyStep (toLowerCase name) context c \<lparr> category = ''unknown'', confidence = 3 / 10 \<rparr>
        = \<lparr> category = ''unknown'', confidence = 3 / 10 \<rparr>"
    if "c \<in> set POI_CATEGORIES" for c
  proof -
    have "categoryConfidence (toLowerCase name) context c = 0"
    proof (rule categoryConfidence_none)
      show "\<forall>k \<in> set (category_keywords c). \<not> str_includes (toLowerCase name) k"
        using assms(1) that unfolding nameHasKeyword_def by blast
    next
      fix cx assume "context = Some cx" "cx \<noteq> []"
      then show "\<forall>r \<in> set (contextualRules c).
          \<not> str_includes (toLowerCase cx) (toLowerCase r)"
        using assms(2) that unfolding contextMatches_def by auto
    qed
    then show ?thesis by (simp add: classifyStep_def)
  qed
  then show ?thesis unfolding classifyPOI_def by (intro fold_unchanged)
qed

lemma empty_name_no_keyword: "\<not> nameHasKeyword []"
  by code_simp

text \<open>
  Claim C8. With no contextual rule matching the context (or no context, or an empty
  one), \<open>classifyPOI\<close> returns category \<open>unknown\<close> with confidence exactly 0.3 for
  the empty name and for every name whose lower-cased form contains no keyword of any
  category.
\<close>

theorem classifyPOI_unknown:
  "(\<not> contextMatches context \<longrightarrow>
      classifyPOI [] context = \<lparr> category = ''unknown'', confidence = 3 / 10 \<rparr>) \<and>
   (\<not> nameHasKeyword name \<and> \<not> contextMatches context \<longrightarrow>
      classifyPOI name context = \<lparr> category = ''unknown'', confidence = 3 / 10 \<rparr>)"
  using classifyPOI_no_match empty_name_no_keyword by blast

theorem classifyPOI_unknown_witness:
  "\<not> contextMatches None \<and> \<not> nameHasKeyword ''Zzyzx Qwerty'' \<and>
   \<not> contextMatches (Some ''beside the river'') \<and>
   classifyPOI [] None = \<lparr> category = ''unknown'', confidence = 3 / 10 \<rparr> \<and>
   classifyPOI ''Zzyzx Qwerty'' (Some ''beside the river'')
     = \<lparr> category = ''unknown'', confidence = 3 / 10 \<rparr>"
proof -
  have a: "\<not> contextMatches None" by (simp add: contextMatches_def)
  have b: "\<not> nameHasKeyword ''Zzyzx Qwerty''" by code_simp
  have c: "\<not> contextMatches (Some ''beside the river'')" by code_simp
  from a b c classifyPOI_unknown [of None "''Zzyzx Qwerty''"]
    classifyPOI_unknown [of "Some ''beside the river''" "''Zzyzx Qwerty''"]
  show ?thesis by blast
qed

lemma keywordScore_count_aux:
  "fold (\<lambda>keyword score. if str_includes n keyword then score + 35 / 100 else score) kws s
     = s + 35 / 100 * of_nat (length (filter (str_includes n) kws))"
  by (induction kws arbitrary: s) (simp_all add: algebra_simps)

lemma keywordScore_count:
  "keywordScore n kws = 35 / 100 * of_nat (length (filter (str_includes n) kws))"
  by (simp add: keywordScore_def keywordScore_count_aux)

lemma classifyStep_pickStep:
  "classifyStep n None d best =
     pickStep (category_id d, length (filter (str_includes n) (category_keywords d))) best"
  by (simp add: classifyStep_def pickStep_def categoryConfidence_def truthy_def
        keywordScore_count Let_def)

lemma pickStep_zero:
  "3 / 10 \<le> confidence best \<Longrightarrow> pickStep (cid, 0) best = best"
  by (simp add: pickStep_def)

lemma pickStep_floor:
  assumes "3 / 10 \<le> confidence best"
  shows "3 / 10 \<le> confidence (pickStep ch best)"
proof -
  define conf where "conf = min (35 / 100 * of_nat (snd ch)) (95 / 100 :: rat)"
  have "pickStep ch best =
      (if conf > confidence best then \<lparr> category = fst ch, confidence = conf \<rparr> else best)"
    by (simp add: pickStep_def conf_def Let_def)
  with assms show ?thesis by simp
qed

lemma fold_classifyStep:
  "3 / 10 \<le> confidence best \<Longrightarrow>
   fold (classifyStep n None) cs best =
     fold pickStep
       (filter (\<lambda>(cid, h). 0 < h)
          (map (\<lambda>d. (category_id d, length (filter (str_includes n) (category_keywords d)))) cs))
       best"
proof (induction cs arbitrary: best)
  case Nil
  then show ?case by simp
next
  case (Cons d cs)
  show ?case
  proof (cases "length (filter (str_includes n) (category_keywords d)) = 0")
    case True
    with Cons show ?thesis by (simp add: classifyStep_pickStep pickStep_zero)
  next
    case False
    with Cons.prems have "3 / 10 \<le> confidence (pickStep (category_id d,
        length (filter (str_includes n) (category_keywords d))) best)"
      by (intro pickStep_floor)
    with False Cons.IH show ?thesis by (simp add: classifyStep_pickStep)
  qed
qed

lemma classifyPOI_keywordHits:
  "classifyPOI name None = pickBest (keywordHits (toLowerCase name))"
  by (simp add: classifyPOI_def pickBest_def keywordHits_def fold_classifyStep)

lemma ball_from_map:
  assumes "map g xs = ys" and "list_all2 (\<lambda>x y. Q x (f y)) xs ys"
  shows "\<forall>x \<in> set xs. Q x (f (g x))"
proof -
  from assms have "list_all2 (\<lambda>x y. Q x (f y)) xs (map g xs)" by simp
  then show ?thesis by (simp add: list_all2_map2 list_all2_same)
qed

text \<open>The hits of every keyword of every category, computed category by category.\<close>

lemma keywordHits_food_beverage:
  "map (\<lambda>k. keywordHits (toLowerCase k)) (category_keywords food_beverage) =
    [[(''food_beverage'', 1)], [(''food_beverage'', 1)], [(''food_beverage'', 1)],
     [(''food_beverage'', 1)], [(''food_beverage'', 1)], [(''food_beverage'', 1)],
     [(''food_beverage'', 1)], [(''food_beverage'', 1)], [(''food_beverage'', 1)]]"
  by code_simp

lemma keywordHits_retail:
  "map (\<lambda>k. keywordHits (toLowerCase k)) (category_keywords retail) =
    [[(''retail'', 1)], [(''retail'', 1)], [(''retail'', 1)], [(''retail'', 1)],
     [(''retail'', 1)], [(''retail'', 1)], [(''retail'', 2)], [(''retail'', 1)]]"
  by code_simp

lemma keywordHits_healthcare:
  "map (\<lambda>k. keywordHits (toLowerCase k)) (category_keywords healthcare) =
    [[(''healthcare'', 1)], [(''healthcare'', 1)], [(''healthcare'', 1)],
     [(''healthcare'', 1)], [(''healthcare'', 1)], [(''healthcare'', 1)],
     [(''healthcare'', 1)], [(''healthcare'', 1)]]"
  by code_simp

lemma keywordHits_education:
  "map (\<lambda>k. keywordHits (toLowerCase k)) (category_keywords education) =
    [[(''education'', 1)], [(''education'', 1)], [(''education'', 1)],
     [(''education'', 1)], [(''education'', 1)], [(''education'', 1)],
     [(''education'', 1)], [(''education'', 1)]]"
  by code_simp

lemma keywordHits_finance:
  "map (\<lambda>k. keywordHits (toLowerCase k)) (category_keywords finance) =
    [[(''finance'', 1)], [(''finance'', 1)], [(''finance'', 1)], [(''finance'', 1)],
     [(''finance'', 1)], [(''finance'', 1)], [(''finance'', 1)]]"
  by code_simp

lemma keywordHits_transportation:
  "map (\<lambda>k. keywordHits (toLowerCase k)) (category_keywords transportation) =
    [[(''transportation'', 1)], [(''transportation'', 1)], [(''transportation'', 1)],
     [(''transportation'', 1)], [(''transportation'', 1), (''entertainment'', 1)],
     [(''transportation'', 1)], [(''transportation'', 1)], [(''transportation'', 1)]]"
  by code_simp

lemma keywordHits_worship:
  "map (\<lambda>k. keywordHits (toLowerCase k)) (category_keywords worship) =
    [[(''worship'', 1)], [(''worship'', 1)], [(''worship'', 1)], [(''worship'', 1)],
     [(''worship'', 1)], [(''worship'', 1)], [(''worship'', 1)]]"
  by code_simp

lemma keywordHits_entertainment:
  "map (\<lambda>k. keywordHits (toLowerCase k)) (category_keywords entertainment) =
    [[(''entertainment'', 1)], [(''entertainment'', 1)], [(''entertainment'', 1)],
     [(''entertainment'', 1)], [(''entertainment'', 1)], [(''entertainment'', 1)],
     [(''entertainment'', 1)]]"
  by code_simp

lemma keywordHits_government:
  "map (\<lambda>k. keywordHits (toLowerCase k)) (category_keywords government) =
    [[(''government'', 1)], [(''government'', 1), (''technology'', 1)],
     [(''government'', 2), (''technology'', 1)], [(''government'', 1)],
     [(''government'', 1)], [(''government'', 1)], [(''government'', 1)]]"
  by code_simp

lemma keywordHits_technology:
  "map (\<lambda>k. keywordHits (toLowerCase k)) (category_keywords technology) =
    [[(''entertainment'', 1)], [(''entertainment'', 1), (''technology'', 1)],
     [(''government'', 1), (''technology'', 1)], [(''technology'', 1)],
     [(''technology'', 1)], [(''technology'', 1)], [(''technology'', 1)]]"
  by code_simp

lemma keywordHits_hospitality:
  "map (\<lambda>k. keywordHits (toLowerCase k)) (category_keywords hospitality) =
    [[(''hospitality'', 1)], [(''hospitality'', 1)], [(''hospitality'', 1)],
     [(''hospitality'', 1)], [(''hospitality'', 1)], [(''hospitality'', 1)],
     [(''hospitality'', 1)]]"
  by code_simp

lemma keywordHits_automotive:
  "map (\<lambda>k. keywordHits (toLowerCase k)) (category_keywords automotive) =
    [[(''automotive'', 1)], [(''automotive'', 1)], [(''automotive'', 1)],
     [(''automotive'', 1)], [(''automotive'', 1)],
     [(''retail'', 1), (''automotive'', 1)], [(''automotive'', 1)]]"
  by code_simp

lemma keywordHits_fitness:
  "map (\<lambda>k. keywordHits (toLowerCase k)) (category_keywords fitness) =
    [[(''fitness'', 1)], [(''fitness'', 1)], [(''fitness'', 1)], [(''fitness'', 1)],
     [(''fitness'', 1)], [(''fitness'', 1)], [(''healthcare'', 1), (''fitness'', 1)]]"
  by code_simp

lemma keywordHits_industrial:
  "map (\<lambda>k. keywordHits (toLowerCase k)) (category_keywords industrial) =
    [[(''industrial'', 1)], [(''industrial'', 1)], [(''industrial'', 1)],
     [(''industrial'', 1)], [(''industrial'', 1)], [(''industrial'', 1)]]"
  by code_simp

lemma keywordHits_residential:
  "map (\<lambda>k. keywordHits (toLowerCase k)) (category_keywords residential) =
    [[(''residential'', 1)], [(''residential'', 1)], [(''residential'', 1)],
     [(''residential'', 1)], [(''residential'', 1)], [(''residential'', 1)]]"
  by code_simp

lemma keywords_food_beverage:
  "\<forall>k \<in> set (category_keywords food_beverage). ownKeywordWins food_beverage k (classifyPOI k None)"
  unfolding classifyPOI_keywordHits
  by (rule ball_from_map [OF keywordHits_food_beverage])
     (simp add: food_beverage_def ownKeywordWins_def pickBest_def pickStep_def firstSeenWins_def
        mixedCaseKeywords_def)

lemma keywords_retail:
  "\<forall>k \<in> set (category_keywords retail). ownKeywordWins retail k (classifyPOI k None)"
  unfolding classifyPOI_keywordHits
  by (rule ball_from_map [OF keywordHits_retail])
     (simp add: retail_def ownKeywordWins_def pickBest_def pickStep_def firstSeenWins_def
        mixedCaseKeywords_def)

lemma keywords_healthcare:
  "\<forall>k \<in> set (category_keywords healthcare). ownKeywordWins healthcare k (classifyPOI k None)"
  unfolding classifyPOI_keywordHits
  by (rule ball_from_map [OF keywordHits_healthcare])
     (simp add: healthcare_def ownKeywordWins_def pickBest_def pickStep_def firstSeenWins_def
        mixedCaseKeywords_def)

lemma keywords_education:
  "\<forall>k \<in> set (category_keywords education). ownKeywordWins education k (classifyPOI k None)"
  unfolding classifyPOI_keywordHits
  by (rule ball_from_map [OF keywordHits_education])
     (simp add: education_def ownKeywordWins_def pickBest_def pickStep_def firstSeenWins_def
        mixedCaseKeywords_def)

lemma keywords_finance:
  "\<forall>k \<in> set (category_keywords finance). ownKeywordWins finance k (classifyPOI k None)"
  unfolding classifyPOI_keywordHits
  by (rule ball_from_map [OF keywordHits_finance])
     (simp add: finance_def ownKeywordWins_def pickBest_def pickStep_def firstSeenWins_def
        mixedCaseKeywords_def)

lemma keywords_transportation:
  "\<forall>k \<in> set (category_keywords transportation). ownKeywordWins transportation k (classifyPOI k None)"
  unfolding classifyPOI_keywordHits
  by (rule ball_from_map [OF keywordHits_transportation])
     (simp add: transportation_def ownKeywordWins_def pickBest_def pickStep_def firstSeenWins_def
        mixedCaseKeywords_def)

lemma keywords_worship:
  "\<forall>k \<in> set (category_keywords worship). ownKeywordWins worship k (classifyPOI k None)"
  unfolding classifyPOI_keywordHits
  by (rule ball_from_map [OF keywordHits_worship])
     (simp add: worship_def ownKeywordWins_def pickBest_def pickStep_def firstSeenWins_def
        mixedCaseKeywords_def)

lemma keywords_entertainment:
  "\<forall>k \<in> set (category_keywords entertainment). ownKeywordWins entertainment k (classifyPOI k None)"
  unfolding classifyPOI_keywordHits
  by (rule ball_from_map [OF keywordHits_entertainment])
     (simp add: entertainment_def ownKeywordWins_def pickBest_def pickStep_def firstSeenWins_def
        mixedCaseKeywords_def)

lemma keywords_government:
  "\<forall>k \<in> set (category_keywords government). ownKeywordWins government k (classifyPOI k None)"
  unfolding classifyPOI_keywordHits
  by (rule ball_from_map [OF keywordHits_government])
     (simp add: government_def ownKeywordWins_def pickBest_def pickStep_def firstSeenWins_def
        mixedCaseKeywords_def)

lemma keywords_technology:
  "\<forall>k \<in> set (category_keywords technology). ownKeywordWins technology k (classifyPOI k None)"
  unfolding classifyPOI_keywordHits
  by (rule ball_from_map [OF keywordHits_technology])
     (simp add: technology_def ownKeywordWins_def pickBest_def pickStep_def firstSeenWins_def
        mixedCaseKeywords_def)

lemma keywords_hospitality:
  "\<forall>k \<in> set (category_keywords hospitality). ownKeywordWins hospitality k (classifyPOI k None)"
  unfolding classifyPOI_keywordHits
  by (rule ball_from_map [OF keywordHits_hospitality])
     (simp add: hospitality_def ownKeywordWins_def pickBest_def pickStep_def firstSeenWins_def
        mixedCaseKeywords_def)

lemma keywords_automotive:
  "\<forall>k \<in> set (category_keywords automotive). ownKeywordWins automotive k (classifyPOI k None)"
  unfolding classifyPOI_keywordHits
  by (rule ball_from_map [OF keywordHits_automotive])
     (simp add: automotive_def ownKeywordWins_def pickBest_def pickStep_def firstSeenWins_def
        mixedCaseKeywords_def)

lemma keywords_fitness:
  "\<forall>k \<in> set (category_keywords fitness). ownKeywordWins fitness k (classifyPOI k None)"
  unfolding classifyPOI_keywordHits
  by (rule ball_from_map [OF keywordHits_fitness])
     (simp add: fitness_def ownKeywordWins_def pickBest_def pickStep_def firstSeenWins_def
        mixedCaseKeywords_def)

lemma keywords_industrial:
  "\<forall>k \<in> set (category_keywords industrial). ownKeywordWins industrial k (classifyPOI k None)"
  unfolding classifyPOI_keywordHits
  by (rule ball_from_map [OF keywordHits_industrial])
     (simp add: industrial_def ownKeywordWins_def pickBest_def pickStep_def firstSeenWins_def
        mixedCaseKeywords_def)

lemma keywords_residential:
  "\<forall>k \<in> set (category_keywords residential). ownKeywordWins residential k (classifyPOI k None)"
  unfolding classifyPOI_keywordHits
  by (rule ball_from_map [OF keywordHits_residential])
     (simp add: residential_def ownKeywordWins_def pickBest_def pickStep_def firstSeenWins_def
        mixedCaseKeywords_def)

lemma first_seen_ties:
  "classifyPOI ''tech park'' None = \<lparr> category = ''entertainment'', confidence = 35 / 100 \<rparr>"
  "classifyPOI ''office'' None = \<lparr> category = ''government'', confidence = 35 / 100 \<rparr>"
  "classifyPOI ''workshop'' None = \<lparr> category = ''retail'', confidence = 35 / 100 \<rparr>"
  "classifyPOI ''health club'' None = \<lparr> category = ''healthcare'', confidence = 35 / 100 \<rparr>"
  using keywordHits_technology keywordHits_automotive keywordHits_fitness
  by (simp_all add: classifyPOI_keywordHits technology_def automotive_def fitness_def
        pickBest_def pickStep_def)

lemma mixed_case_keyword:
  "classifyPOI ''IT park'' None = \<lparr> category = ''entertainment'', confidence = 35 / 100 \<rparr>"
  using keywordHits_technology
  by (simp add: classifyPOI_keywordHits technology_def pickBest_def pickStep_def)

lemma classifyPOI_lowercase:
  "toLowerCase a = toLowerCase b \<Longrightarrow> classifyPOI a ctx = classifyPOI b ctx"
  by (simp add: classifyPOI_def)

text \<open>
  Claim C1, as amended. For every category and every keyword of it, except the four
  keywords that also hit an earlier category and the keyword \<open>IT park\<close>,
  \<open>classifyPOI\<close> of the keyword alone returns that category's id with a confidence
  between 0.35 and 0.95. For \<open>tech park\<close>, \<open>office\<close>, \<open>workshop\<close> and
  \<open>health club\<close> the tie at 0.35 stays with the category declared first:
  \<open>entertainment\<close>, \<open>government\<close>, \<open>retail\<close> and \<open>healthcare\<close>. The name is
  lower-cased before matching and the keyword is not, so the result depends on the name
  only through its lower-cased form.
\<close>

theorem keyword_names_classified:
  "(\<forall>c \<in> set POI_CATEGORIES. \<forall>k \<in> set (category_keywords c).
      (category_id c, k) \<notin> set firstSeenWins \<and> (category_id c, k) \<notin> set mixedCaseKeywords \<longrightarrow>
        category (classifyPOI k None) = category_id c \<and>
        35 / 100 \<le> confidence (classifyPOI k None) \<and>
        confidence (classifyPOI k None) \<le> 95 / 100) \<and>
   classifyPOI ''tech park'' None = \<lparr> category = ''entertainment'', confidence = 35 / 100 \<rparr> \<and>
   classifyPOI ''office'' None = \<lparr> category = ''government'', confidence = 35 / 100 \<rparr> \<and>
   classifyPOI ''workshop'' None = \<lparr> category = ''retail'', confidence = 35 / 100 \<rparr> \<and>
   classifyPOI ''health club'' None = \<lparr> category = ''healthcare'', confidence = 35 / 100 \<rparr> \<and>
   (\<forall>a b ctx. toLowerCase a = toLowerCase b \<longrightarrow> classifyPOI a ctx = classifyPOI b ctx)"
proof -
  have "\<forall>c \<in> set POI_CATEGORIES. \<forall>k \<in> set (category_keywords c).
      ownKeywordWins c k (classifyPOI k None)"
    unfolding POI_CATEGORIES_def
    using keywords_food_beverage keywords_retail keywords_healthcare keywords_education
      keywords_finance keywords_transportation keywords_worship keywords_entertainment
      keywords_government keywords_technology keywords_hospitality keywords_automotive
      keywords_fitness keywords_industrial keywords_residential
    by simp
  then show ?thesis
    using first_seen_ties classifyPOI_lowercase unfolding ownKeywordWins_def by blast
qed

theorem keyword_names_classified_witness:
  "retail \<in> set POI_CATEGORIES \<and> ''supermarket'' \<in> set (category_keywords retail) \<and>
   (category_id retail, ''supermarket'') \<notin> set firstSeenWins \<and>
   (category_id retail, ''supermarket'') \<notin> set mixedCaseKeywords \<and>
   category (classifyPOI ''supermarket'' None) = category_id retail \<and>
   35 / 100 \<le> confidence (classifyPOI ''supermarket'' None) \<and>
   confidence (classifyPOI ''supermarket'' None) \<le> 95 / 100"
proof -
  have m1: "retail \<in> set POI_CATEGORIES" by (simp add: POI_CATEGORIES_def)
  have m2: "''supermarket'' \<in> set (category_keywords retail)" by (simp add: retail_def)
  have m3: "(category_id retail, ''supermarket'') \<notin> set firstSeenWins \<and>
            (category_id retail, ''supermarket'') \<notin> set mixedCaseKeywords"
    by (simp add: retail_def firstSeenWins_def mixedCaseKeywords_def)
  from keyword_names_classified m1 m2 m3 show ?thesis by blast
qed

text \<open>
  The claim as first stated fails at the keyword \<open>office\<close> of \<open>technology\<close>:
  \<open>government\<close>, declared earlier, has the same keyword and keeps the tie.
\<close>

theorem office_goes_to_government:
  "technology \<in> set POI_CATEGORIES \<and> ''office'' \<in> set (category_keywords technology) \<and>
   category (classifyPOI ''office'' None) = ''government'' \<and>
   category (classifyPOI ''office'' None) \<noteq> category_id technology"
  by (simp add: first_seen_ties POI_CATEGORIES_def technology_def)

section \<open>Properties of the gazetteer\<close>

lemma gazetteer_keys_normal:
  "\<forall>(k, v) \<in> set CITY_COORDINATES. filter (\<lambda>c. \<not> isWhiteSpace c) k = k"
  by code_simp

lemma gazetteer_keys_own:
  "\<forall>(k, v) \<in> set CITY_COORDINATES. getProperty CITY_COORDINATES k = Own v"
  by (simp add: CITY_COORDINATES_def getProperty_def)

lemma gazetteer_known_city:
  assumes "(k, v) \<in> set CITY_COORDINATES" and "toLowerCase s = k"
  shows "getCityCoordinates s = Own v"
proof -
  from assms(1) gazetteer_keys_normal have "normalizeLocation s = k"
    using assms(2) by (auto simp: normalizeLocation_def)
  moreover from assms(1) gazetteer_keys_own have "getProperty CITY_COORDINATES k = Own v"
    by auto
  ultimately show ?thesis by (simp add: getCityCoordinates_def orElse_def)
qed

lemma delhi_upper: "getCityCoordinates ''DELHI'' = Own (286139 / 10000, 772090 / 10000)"
proof -
  have "toLowerCase ''DELHI'' = ''delhi''" by code_simp
  moreover have "(''delhi'', (286139 / 10000, 772090 / 10000)) \<in> set CITY_COORDINATES"
    by (simp add: CITY_COORDINATES_def)
  ultimately show ?thesis by (rule gazetteer_known_city [rotated])
qed

lemma gazetteer_default:
  assumes "normalizeLocation s \<notin> fst ` set CITY_COORDINATES"
    and "normalizeLocation s \<notin> set objectPrototypeProperties"
  shows "getCityCoordinates s = Own (129716 / 10000, 775946 / 10000)"
proof -
  from assms(1) have "map_of CITY_COORDINATES (normalizeLocation s) = None"
    by (simp add: map_of_eq_None_iff)
  with assms(2) have "getProperty CITY_COORDINATES (normalizeLocation s) = Undefined"
    by (simp add: getProperty_def)
  moreover have "getProperty CITY_COORDINATES ''bangalore'' = Own (129716 / 10000, 775946 / 10000)"
    by (simp add: CITY_COORDINATES_def getProperty_def)
  ultimately show ?thesis by (simp add: getCityCoordinates_def orElse_def)
qed

lemma constructor_normal: "normalizeLocation ''constructor'' = ''constructor''"
  by code_simp

text \<open>
  Claim C7. A name that lower-cases to a key of the table gets that key's pair
  (\<open>gazetteer_known_city\<close>), and a name whose normal form is neither a key nor a
  property inherited from \<open>Object.prototype\<close> gets Bangalore's (\<open>gazetteer_default\<close>).
  The name \<open>constructor\<close> is not in the table, and the lookup does not fall back to
  Bangalore for it: it returns the inherited property.
\<close>

theorem gazetteer_inherited_property:
  "map_of CITY_COORDINATES (normalizeLocation ''constructor'') = None \<and>
   getCityCoordinates ''constructor'' = Inherited ''constructor'' \<and>
   getCityCoordinates ''bangalore'' = Own (129716 / 10000, 775946 / 10000) \<and>
   getCityCoordinates ''constructor'' \<noteq> getCityCoordinates ''bangalore''"
proof -
  have a: "map_of CITY_COORDINATES ''constructor'' = None"
    by (simp add: CITY_COORDINATES_def)
  have b: "getProperty CITY_COORDINATES ''constructor'' = Inherited ''constructor''"
    by (simp add: getProperty_def a objectPrototypeProperties_def)
  have c: "getCityCoordinates ''constructor'' = Inherited ''constructor''"
    by (simp add: getCityCoordinates_def constructor_normal b orElse_def)
  have "toLowerCase ''bangalore'' = ''bangalore''" by code_simp
  moreover have "(''bangalore'', (129716 / 10000, 775946 / 10000)) \<in> set CITY_COORDINATES"
    by (simp add: CITY_COORDINATES_def)
  ultimately have d: "getCityCoordinates ''bangalore'' = Own (129716 / 10000, 775946 / 10000)"
    by (rule gazetteer_known_city [rotated])
  from a c d show ?thesis by (simp add: constructor_normal)
qed

section \<open>Properties of the orchestrator\<close>

lemma Math_random_range:
  "validRandoms rt \<Longrightarrow> 0 \<le> fst (Math_random rt) \<and> fst (Math_random rt) < 1"
  by (simp add: validRandoms_def Math_random_def)

lemma Math_random_valid: "validRandoms rt \<Longrightarrow> validRandoms (snd (Math_random rt))"
  by (simp add: validRandoms_def Math_random_def)

lemma Date_now_valid: "validRandoms rt \<Longrightarrow> validRandoms (snd (Date_now rt))"
  by (simp add: validRandoms_def Date_now_def)

lemma aiSuggestion_valid:
  "validRandoms rt \<Longrightarrow> validRandoms (snd (aiSuggestion names coords it i rt))"
  by (simp add: aiSuggestion_def split_beta Math_random_valid Date_now_valid)

lemma aiSuggestion_unverified: "\<not> verified (fst (aiSuggestion names coords it i rt))"
  by (simp add: aiSuggestion_def split_beta)

lemma verifiedPOI_verified: "verified (fst (verifiedPOI btype coords i rt))"
  by (simp add: verifiedPOI_def split_beta)

lemma fold_pushPOI_length:
  "length (fst (fold (pushPOI mk) js st)) = length (fst st) + length js"
  by (induction js arbitrary: st) (simp_all add: pushPOI_def split_beta)

lemma fold_pushPOI_all:
  assumes "\<And>i rt. P (fst (mk i rt))" and "list_all P (fst st)"
  shows "list_all P (fst (fold (pushPOI mk) js st))"
  using assms(2)
  by (induction js arbitrary: st) (simp_all add: pushPOI_def split_beta assms(1))

lemma fold_pushPOI_valid:
  assumes "\<And>i rt. validRandoms rt \<Longrightarrow> validRandoms (snd (mk i rt))"
    and "validRandoms (snd st)"
  shows "validRandoms (snd (fold (pushPOI mk) js st))"
  using assms(2)
  by (induction js arbitrary: st) (simp_all add: pushPOI_def split_beta assms(1))

text \<open>What \<open>generateAISuggestions\<close> returns when it returns.\<close>

lemma generateAISuggestions_loop:
  assumes "generateAISuggestions loc btype factors qt rt = Inr res"
  shows "\<exists>names coords it.
           res = fold (pushPOI (aiSuggestion names coords it)) [0 ..< 5] ([], rt)"
  using assms
  by (auto simp: generateAISuggestions_def andThen_def split: sum.splits)

lemma generateAISuggestions_length:
  assumes "generateAISuggestions loc btype factors qt rt = Inr (ai, rt1)"
  shows "length ai = 5"
proof -
  from generateAISuggestions_loop [OF assms] obtain names coords it where
    "(ai, rt1) = fold (pushPOI (aiSuggestion names coords it)) [0 ..< 5] ([], rt)"
    by blast
  then have "ai = fst (fold (pushPOI (aiSuggestion names coords it)) [0 ..< 5] ([], rt))"
    by (metis fst_conv)
  then show ?thesis by (simp only: fold_pushPOI_length) simp
qed

lemma generateAISuggestions_unverified:
  assumes "generateAISuggestions loc btype factors qt rt = Inr (ai, rt1)"
  shows "list_all (\<lambda>p. \<not> verified p) ai"
proof -
  from generateAISuggestions_loop [OF assms] obtain names coords it where
    "(ai, rt1) = fold (pushPOI (aiSuggestion names coords it)) [0 ..< 5] ([], rt)"
    by blast
  then have "ai = fst (fold (pushPOI (aiSuggestion names coords it)) [0 ..< 5] ([], rt))"
    by (metis fst_conv)
  moreover have "list_all (\<lambda>p. \<not> verified p)
      (fst (fold (pushPOI (aiSuggestion names coords it)) [0 ..< 5] ([], rt)))"
    by (rule fold_pushPOI_all) (simp_all add: aiSuggestion_unverified)
  ultimately show ?thesis by simp
qed

lemma generateAISuggestions_valid:
  assumes "generateAISuggestions loc btype factors qt rt = Inr (ai, rt1)"
    and "validRandoms rt"
  shows "validRandoms rt1"
proof -
  from generateAISuggestions_loop [OF assms(1)] obtain names coords it where
    "(ai, rt1) = fold (pushPOI (aiSuggestion names coords it)) [0 ..< 5] ([], rt)"
    by blast
  then have "rt1 = snd (fold (pushPOI (aiSuggestion names coords it)) [0 ..< 5] ([], rt))"
    by (metis snd_conv)
  moreover have "validRandoms
      (snd (fold (pushPOI (aiSuggestion names coords it)) [0 ..< 5] ([], rt)))"
    by (rule fold_pushPOI_valid) (simp_all add: aiSuggestion_valid assms(2))
  ultimately show ?thesis by simp
qed

text \<open>What \<open>validateWithGroundTruth\<close> returns when it returns.\<close>

lemma validateWithGroundTruth_loop:
  assumes "validateWithGroundTruth ai loc btype rt = Inr res"
  shows "\<exists>b coords.
           res = fold (pushPOI (verifiedPOI b coords))
                   [0 ..< nat (validCount (length ai) (fst (Math_random rt)))]
                   ([], snd (Math_random rt))"
  using assms
  by (auto simp: validateWithGroundTruth_def andThen_def split_beta split: sum.splits)

lemma validateWithGroundTruth_length:
  assumes "validateWithGroundTruth ai loc btype rt = Inr (verif, rt2)"
  shows "length verif = nat (validCount (length ai) (fst (Math_random rt)))"
proof -
  from validateWithGroundTruth_loop [OF assms] obtain b coords where
    "(verif, rt2) = fold (pushPOI (verifiedPOI b coords))
       [0 ..< nat (validCount (length ai) (fst (Math_random rt)))] ([], snd (Math_random rt))"
    by blast
  then have "verif = fst (fold (pushPOI (verifiedPOI b coords))
       [0 ..< nat (validCount (length ai) (fst (Math_random rt)))] ([], snd (Math_random rt)))"
    by (metis fst_conv)
  then show ?thesis by (simp only: fold_pushPOI_length) simp
qed

lemma validateWithGroundTruth_verified:
  assumes "validateWithGroundTruth ai loc btype rt = Inr (verif, rt2)"
  shows "list_all verified verif"
proof -
  from validateWithGroundTruth_loop [OF assms] obtain b coords where
    "(verif, rt2) = fold (pushPOI (verifiedPOI b coords))
       [0 ..< nat (validCount (length ai) (fst (Math_random rt)))] ([], snd (Math_random rt))"
    by blast
  then have "verif = fst (fold (pushPOI (verifiedPOI b coords))
       [0 ..< nat (validCount (length ai) (fst (Math_random rt)))] ([], snd (Math_random rt)))"
    by (metis fst_conv)
  moreover have "list_all verified (fst (fold (pushPOI (verifiedPOI b coords))
       [0 ..< nat (validCount (length ai) (fst (Math_random rt)))] ([], snd (Math_random rt))))"
    by (rule fold_pushPOI_all) (simp_all add: verifiedPOI_verified)
  ultimately show ?thesis by simp
qed

lemma validCount_five:
  assumes "0 \<le> r" and "r < 1"
  shows "validCount 5 r = 3"
proof -
  have "of_nat 5 * (60 / 100 + r * (10 / 100)) = 3 + r / 2" by simp
  moreover have "\<lfloor>3 + r / 2\<rfloor> = 3" using assms by (simp add: floor_unique)
  ultimately show ?thesis by (simp add: validCount_def)
qed

text \<open>
  The parts of a result of \<open>analyzeQuery\<close>: the two lists are what the two generators
  returned, the second run on the runtime the first left, and the accuracy is computed
  from their lengths.
\<close>

lemma analyzeQuery_parts:
  assumes "analyzeQuery cfg create parse rt q qt = Inr r"
  shows "\<exists>loc btype factors rt1 rt2.
    generateAISuggestions loc btype factors qt rt
      = Inr (suggestedLocations (aiReasoning r), rt1) \<and>
    validateWithGroundTruth (suggestedLocations (aiReasoning r)) loc btype rt1
      = Inr (verifiedPOIs (groundTruth r), rt2) \<and>
    accuracy (groundTruth r) =
      min (Math_round (of_nat (length (verifiedPOIs (groundTruth r))) /
                       of_nat (max (length (suggestedLocations (aiReasoning r))) 1) * 100)) 70"
  using assms
  apply (clarsimp simp: analyzeQuery_def andThen_def Let_def split_beta split: sum.splits)
  apply blast
  done

lemma verified_count_three:
  assumes "analyzeQuery cfg create parse rt q qt = Inr r" and "validRandoms rt"
  shows "length (suggestedLocations (aiReasoning r)) = 5"
    and "length (verifiedPOIs (groundTruth r)) = 3"
    and "accuracy (groundTruth r) = 60"
proof -
  from analyzeQuery_parts [OF assms(1)] obtain loc btype factors rt1 rt2 where
    g: "generateAISuggestions loc btype factors qt rt
          = Inr (suggestedLocations (aiReasoning r), rt1)"
    and v: "validateWithGroundTruth (suggestedLocations (aiReasoning r)) loc btype rt1
          = Inr (verifiedPOIs (groundTruth r), rt2)"
    and acc: "accuracy (groundTruth r) =
      min (Math_round (of_nat (length (verifiedPOIs (groundTruth r))) /
                       of_nat (max (length (suggestedLocations (aiReasoning r))) 1) * 100)) 70"
    by blast
  show five: "length (suggestedLocations (aiReasoning r)) = 5"
    using g by (rule generateAISuggestions_length)
  have valid: "validRandoms rt1" using g assms(2) by (rule generateAISuggestions_valid)
  show three: "length (verifiedPOIs (groundTruth r)) = 3"
    using Math_random_range [OF valid]
    by (simp add: validateWithGroundTruth_length [OF v] five validCount_five)
  have "Math_round (of_nat 3 / of_nat (max 5 1) * 100) = 60"
    unfolding Math_round_def by (rule floor_unique) simp_all
  with acc three five show "accuracy (groundTruth r) = 60" by simp
qed

text \<open>
  \<open>analyzeQuery\<close> returns a result whenever the interpretation has the shape its type
  declares and \<open>queryType\<close> is a string or absent; the heuristic interpretation has
  that shape. It is rejected, for one, when the model replies with an empty object.
\<close>

lemma ToString_string: "ToString nt (JString s) = Inr s"
  by simp

lemma someElement_strings:
  "someElement p (map JString fs) = Inr (list_ex (\<lambda>s. p (toLowerCase s)) fs)"
  by (induction fs) simp_all

lemma analysisToJson_fields:
  "field (analysisToJson a) ''location'' = JString (location a)"
  "field (analysisToJson a) ''businessType'' = JString (businessType a)"
  "field (analysisToJson a) ''contextualFactors'' = JArray (map JString (contextualFactors a))"
  "field (analysisToJson a) ''marketInsights'' = JString (marketInsights a)"
  "field (analysisToJson a) ''keyAssumptions'' = JArray (map JString (keyAssumptions a))"
  by (simp_all add: analysisToJson_def field_def)

lemma propertyKey_returns:
  assumes "qt = JUndefined \<or> qt = JString s"
  shows "\<exists>k. (if falsy qt then Inr ''location'' else ToString nt qt) = Inr k"
  using assms by (auto simp: falsy_def)

lemma generateAISuggestions_returns:
  assumes "qt = JUndefined \<or> qt = JString s"
  shows "\<exists>res. generateAISuggestions (JString l) (JString b) (JArray (map JString fs)) qt rt
           = Inr res"
proof -
  from propertyKey_returns [OF assms] obtain k where
    "(if falsy qt then Inr ''location'' else ToString (numberText rt) qt) = Inr k"
    by blast
  then show ?thesis
    by (simp add: generateAISuggestions_def andThen_def callGetCityCoordinates_def
          hasITContext_def someFactor_def someElement_strings)
qed

lemma validateWithGroundTruth_returns:
  "\<exists>res. validateWithGroundTruth ai (JString l) (JString b) rt = Inr res"
  by (simp add: validateWithGroundTruth_def andThen_def callGetCityCoordinates_def split_beta)

lemma identifyCorrectionsAndGaps_returns:
  "\<exists>res. identifyCorrectionsAndGaps (JArray (map JString fs)) (JString b) (JString l) rt
          = Inr res"
  by (simp add: identifyCorrectionsAndGaps_def andThen_def hasITContext_def someFactor_def
        someElement_strings Let_def split_beta)

lemma generateRecommendation_returns:
  "\<exists>res. generateRecommendation nt (JString b) (JString l) verif corr gps = Inr res"
  by (simp add: generateRecommendation_def andThen_def Let_def)

lemma analyzeQuery_returns:
  assumes reply: "analyzeSpatialQuery cfg create parse q = Inr (analysisToJson a)"
    and qt: "qt = JUndefined \<or> qt = JString s"
  shows "\<exists>r. analyzeQuery cfg create parse rt q qt = Inr r"
proof -
  let ?l = "JString (location a)" and ?b = "JString (businessType a)"
    and ?f = "JArray (map JString (contextualFactors a))"
  have d: "destructureAnalysis (analysisToJson a) = Inr (analysisToJson a)"
    by (simp add: destructureAnalysis_def analysisToJson_def)
  from generateAISuggestions_returns [OF qt] obtain ai rt1 where
    g: "generateAISuggestions ?l ?b ?f qt rt = Inr (ai, rt1)"
    by (metis surj_pair)
  obtain verif rt2 where v: "validateWithGroundTruth ai ?l ?b rt1 = Inr (verif, rt2)"
    using validateWithGroundTruth_returns by (metis surj_pair)
  obtain corr gps rt3 where
    c: "identifyCorrectionsAndGaps ?f ?b ?l rt2 = Inr ((corr, gps), rt3)"
    using identifyCorrectionsAndGaps_returns by (metis surj_pair)
  obtain recText where
    t: "generateRecommendation (numberText rt) ?b ?l verif corr gps = Inr recText"
    using generateRecommendation_returns by blast
  show ?thesis
    by (simp add: analyzeQuery_def andThen_def reply d analysisToJson_fields g v c t
          callGetCityCoordinates_def Let_def split_beta)
qed

lemma heuristic_reply:
  "\<not> USE_LLM cfg \<Longrightarrow>
   analyzeSpatialQuery cfg create parse q = Inr (analysisToJson (simulateAnalysis q))"
  by (simp add: analyzeSpatialQuery_def)

lemma sample_reply:
  "analyzeSpatialQuery ollamaConfig networkDown rejectingParser q
     = Inr (analysisToJson (simulateAnalysis q))"
  by (rule tryLLM_failure_caught [where e = "Error ''fetch failed''"])
     (simp add: tryLLM_def getClient_def ollamaConfig_def networkDown_def)

lemma empty_object_reply_rejected:
  "analyzeQuery ollamaConfig jsonReply emptyObjectParser rt q qt =
     Inl (Error (''Cannot read properties of undefined (reading '' @ quoted ''toLowerCase''
                 @ '')''))"
proof -
  have "tryLLM ollamaConfig jsonReply emptyObjectParser q = Inr (JObject [])"
    by (simp add: tryLLM_def getClient_def ollamaConfig_def jsonReply_def firstContent_def
          emptyObjectParser_def)
  then have "analyzeSpatialQuery ollamaConfig jsonReply emptyObjectParser q = Inr (JObject [])"
    by (simp add: analyzeSpatialQuery_def ollamaConfig_def)
  then show ?thesis
    by (simp add: analyzeQuery_def andThen_def destructureAnalysis_def field_def
          generateAISuggestions_def callGetCityCoordinates_def methodTypeError_def)
qed

lemma steady_valid: "validRandoms steadyRuntime"
  by (simp add: validRandoms_def steadyRuntime_def)

text \<open>
  Claim C3. For every query and query type, every result \<open>analyzeQuery\<close> returns has
  exactly 5 \<open>suggestedLocations\<close>, each with \<open>verified = false\<close>; and it does return
  one whenever the interpretation has its declared shape and \<open>queryType\<close> is a string
  or absent.
\<close>

theorem suggestions_five_unverified:
  "(analyzeQuery cfg create parse rt q qt = Inr r \<longrightarrow>
      length (suggestedLocations (aiReasoning r)) = 5 \<and>
      list_all (\<lambda>p. \<not> verified p) (suggestedLocations (aiReasoning r))) \<and>
   (analyzeSpatialQuery cfg create parse q = Inr (analysisToJson a) \<and>
    (qt = JUndefined \<or> qt = JString s) \<longrightarrow>
      (\<exists>r'. analyzeQuery cfg create parse rt q qt = Inr r' \<and>
         length (suggestedLocations (aiReasoning r')) = 5 \<and>
         list_all (\<lambda>p. \<not> verified p) (suggestedLocations (aiReasoning r'))))"
proof -
  have every: "length (suggestedLocations (aiReasoning x)) = 5 \<and>
      list_all (\<lambda>p. \<not> verified p) (suggestedLocations (aiReasoning x))"
    if "analyzeQuery cfg create parse rt q qt = Inr x" for x
  proof -
    from analyzeQuery_parts [OF that] obtain loc btype factors rt1 where
      "generateAISuggestions loc btype factors qt rt
         = Inr (suggestedLocations (aiReasoning x), rt1)"
      by blast
    then show ?thesis
      using generateAISuggestions_length generateAISuggestions_unverified by blast
  qed
  then show ?thesis using analyzeQuery_returns by blast
qed

theorem suggestions_five_unverified_witness:
  "\<exists>r. analyzeQuery ollamaConfig networkDown rejectingParser steadyRuntime chaiQuery
          (JString ''market'') = Inr r \<and>
     length (suggestedLocations (aiReasoning r)) = 5 \<and>
     list_all (\<lambda>p. \<not> verified p) (suggestedLocations (aiReasoning r))"
  using suggestions_five_unverified [of ollamaConfig networkDown rejectingParser
      steadyRuntime chaiQuery "JString ''market''" _ "simulateAnalysis chaiQuery" "''market''"]
    sample_reply [of chaiQuery]
  by blast

text \<open>
  Claim C2. For every query and query type, the accuracy in every result
  \<open>analyzeQuery\<close> returns is \<open>round(100 * verified / max(suggested, 1))\<close> capped at 70,
  an integer between 0 and 70; and it does return a result whenever the interpretation
  has its declared shape and \<open>queryType\<close> is a string or absent.
\<close>

theorem accuracy_formula:
  "(analyzeQuery cfg create parse rt q qt = Inr r \<longrightarrow>
      accuracy (groundTruth r) =
        min (round (100 * of_nat (length (verifiedPOIs (groundTruth r))) /
                    (of_nat (max (length (suggestedLocations (aiReasoning r))) 1) :: rat))) 70 \<and>
      0 \<le> accuracy (groundTruth r) \<and> accuracy (groundTruth r) \<le> 70) \<and>
   (analyzeSpatialQuery cfg create parse q = Inr (analysisToJson a) \<and>
    (qt = JUndefined \<or> qt = JString s) \<longrightarrow>
      (\<exists>r'. analyzeQuery cfg create parse rt q qt = Inr r' \<and>
         accuracy (groundTruth r') =
           min (round (100 * of_nat (length (verifiedPOIs (groundTruth r'))) /
                       (of_nat (max (length (suggestedLocations (aiReasoning r'))) 1) :: rat))) 70 \<and>
         0 \<le> accuracy (groundTruth r') \<and> accuracy (groundTruth r') \<le> 70))"
proof -
  have every: "accuracy (groundTruth x) =
        min (round (100 * of_nat (length (verifiedPOIs (groundTruth x))) /
                    (of_nat (max (length (suggestedLocations (aiReasoning x))) 1) :: rat))) 70 \<and>
      0 \<le> accuracy (groundTruth x) \<and> accuracy (groundTruth x) \<le> 70"
    if "analyzeQuery cfg create parse rt q qt = Inr x" for x
  proof -
    from analyzeQuery_parts [OF that] have acc: "accuracy (groundTruth x) =
      min (Math_round (of_nat (length (verifiedPOIs (groundTruth x))) /
                       of_nat (max (length (suggestedLocations (aiReasoning x))) 1) * 100)) 70"
      by blast
    define v where "v = length (verifiedPOIs (groundTruth x))"
    define m where "m = max (length (suggestedLocations (aiReasoning x))) 1"
    have eq: "Math_round (of_nat v / of_nat m * 100) = round (100 * of_nat v / (of_nat m :: rat))"
      by (simp add: Math_round_def round_def mult.commute)
    have nonneg: "0 \<le> round (100 * of_nat v / (of_nat m :: rat))"
      by (simp add: round_def)
    show ?thesis
      using acc eq nonneg unfolding v_def m_def by auto
  qed
  then show ?thesis using analyzeQuery_returns by blast
qed

theorem accuracy_formula_witness:
  "\<exists>r. analyzeQuery ollamaConfig networkDown rejectingParser steadyRuntime chaiQuery
          JUndefined = Inr r \<and>
     accuracy (groundTruth r) =
       min (round (100 * of_nat (length (verifiedPOIs (groundTruth r))) /
                   (of_nat (max (length (suggestedLocations (aiReasoning r))) 1) :: rat))) 70 \<and>
     0 \<le> accuracy (groundTruth r) \<and> accuracy (groundTruth r) \<le> 70"
  using accuracy_formula [of ollamaConfig networkDown rejectingParser steadyRuntime
      chaiQuery JUndefined _ "simulateAnalysis chaiQuery"]
    sample_reply [of chaiQuery]
  by blast

text \<open>
  Claim C10. When \<open>Math.random()\<close> returns values in \<open>[0, 1)\<close>, the validation rate
  lies in \<open>[0.60, 0.70)\<close> and the verified count \<open>floor(5 * rate)\<close> is 3: for every
  query and query type, every result \<open>analyzeQuery\<close> returns has exactly 3 verified
  POIs and accuracy 60; and it does return a result whenever the interpretation has its
  declared shape and \<open>queryType\<close> is a string or absent.
\<close>

theorem verified_three_accuracy_sixty:
  assumes "validRandoms rt"
  shows "(analyzeQuery cfg create parse rt q qt = Inr r \<longrightarrow>
      length (verifiedPOIs (groundTruth r)) = 3 \<and> accuracy (groundTruth r) = 60) \<and>
   (analyzeSpatialQuery cfg create parse q = Inr (analysisToJson a) \<and>
    (qt = JUndefined \<or> qt = JString s) \<longrightarrow>
      (\<exists>r'. analyzeQuery cfg create parse rt q qt = Inr r' \<and>
         length (verifiedPOIs (groundTruth r')) = 3 \<and> accuracy (groundTruth r') = 60))"
proof -
  have every: "length (verifiedPOIs (groundTruth x)) = 3 \<and> accuracy (groundTruth x) = 60"
    if x: "analyzeQuery cfg create parse rt q qt = Inr x" for x
    using verified_count_three(2,3) [OF x assms] by simp
  then show ?thesis using analyzeQuery_returns by blast
qed

theorem verified_three_accuracy_sixty_witness:
  "validRandoms steadyRuntime \<and>
   (\<exists>r. analyzeQuery ollamaConfig networkDown rejectingParser steadyRuntime chaiQuery
          JUndefined = Inr r \<and>
      length (verifiedPOIs (groundTruth r)) = 3 \<and> accuracy (groundTruth r) = 60)"
  using steady_valid
    verified_three_accuracy_sixty [OF steady_valid, of ollamaConfig networkDown
      rejectingParser chaiQuery JUndefined _ "simulateAnalysis chaiQuery"]
    sample_reply [of chaiQuery]
  by blast

text \<open>
  Claim C4. When \<open>Math.random()\<close> returns values in \<open>[0, 1)\<close>, for every query and query
  type every result \<open>analyzeQuery\<close> returns has no more verified POIs than suggested
  locations, and every verified POI has \<open>verified = true\<close>; and it does return a result
  whenever the interpretation has its declared shape and \<open>queryType\<close> is a string or
  absent.
\<close>

theorem verified_at_most_suggested:
  assumes "validRandoms rt"
  shows "(analyzeQuery cfg create parse rt q qt = Inr r \<longrightarrow>
      length (verifiedPOIs (groundTruth r)) \<le> length (suggestedLocations (aiReasoning r)) \<and>
      list_all verified (verifiedPOIs (groundTruth r))) \<and>
   (analyzeSpatialQuery cfg create parse q = Inr (analysisToJson a) \<and>
    (qt = JUndefined \<or> qt = JString s) \<longrightarrow>
      (\<exists>r'. analyzeQuery cfg create parse rt q qt = Inr r' \<and>
         length (verifiedPOIs (groundTruth r')) \<le> length (suggestedLocations (aiReasoning r')) \<and>
         list_all verified (verifiedPOIs (groundTruth r'))))"
proof -
  have every: "length (verifiedPOIs (groundTruth x)) \<le> length (suggestedLocations (aiReasoning x)) \<and>
      list_all verified (verifiedPOIs (groundTruth x))"
    if x: "analyzeQuery cfg create parse rt q qt = Inr x" for x
  proof -
    from analyzeQuery_parts [OF x] obtain loc btype rt1 rt2 where
      "validateWithGroundTruth (suggestedLocations (aiReasoning x)) loc btype rt1
         = Inr (verifiedPOIs (groundTruth x), rt2)"
      by blast
    then have "list_all verified (verifiedPOIs (groundTruth x))"
      by (rule validateWithGroundTruth_verified)
    with verified_count_three(1,2) [OF x assms] show ?thesis by simp
  qed
  then show ?thesis using analyzeQuery_returns by blast
qed

theorem verified_at_most_suggested_witness:
  "validRandoms steadyRuntime \<and>
   (\<exists>r. analyzeQuery ollamaConfig networkDown rejectingParser steadyRuntime
          ''pharmacy in Pune'' (JString ''competitor'') = Inr r \<and>
      length (verifiedPOIs (groundTruth r)) \<le> length (suggestedLocations (aiReasoning r)) \<and>
      list_all verified (verifiedPOIs (groundTruth r)))"
  using steady_valid
    verified_at_most_suggested [OF steady_valid, of ollamaConfig networkDown
      rejectingParser "''pharmacy in Pune''" "JString ''competitor''" _
      "simulateAnalysis ''pharmacy in Pune''" "''competitor''"]
    sample_reply [of "''pharmacy in Pune''"]
  by blast

section \<open>Properties of the analyze handler\<close>

text \<open>
  Claim C9, as amended. A request whose method is not \<open>POST\<close> gets 405. A \<open>POST\<close> whose
  body is neither \<open>null\<close> nor \<open>undefined\<close> gets 400 when its \<open>query\<close> is missing, is
  not a string, or is the empty string; in both cases the orchestrator is not called.
  Otherwise the orchestrator is called once, with the query and the \<open>queryType\<close> of the
  body, and the response is 200 with its result, or 500 with the error envelope when it
  throws.
\<close>

theorem analyze_handler_status:
  "(req_method req \<noteq> ''POST'' \<longrightarrow>
      handler analyze req =
        \<lparr> response = \<lparr> status = 405, body = ErrorBody ''Method not allowed'' \<rparr>,
          orchestratorCalls = [] \<rparr>) \<and>
   (req_method req = ''POST'' \<and> req_body req \<noteq> JNull \<and> req_body req \<noteq> JUndefined \<and>
    (\<forall>q. field (req_body req) ''query'' = JString q \<longrightarrow> q = []) \<longrightarrow>
      handler analyze req =
        \<lparr> response = \<lparr> status = 400, body = ErrorBody ''Query is required'' \<rparr>,
          orchestratorCalls = [] \<rparr>) \<and>
   (req_method req = ''POST'' \<and> req_body req \<noteq> JNull \<and> req_body req \<noteq> JUndefined \<and>
    field (req_body req) ''query'' = JString q \<and> q \<noteq> [] \<longrightarrow>
      (\<forall>r. analyze q (field (req_body req) ''queryType'') = Inr r \<longrightarrow>
         handler analyze req =
           \<lparr> response = \<lparr> status = 200, body = ResultBody r \<rparr>,
             orchestratorCalls = [(q, field (req_body req) ''queryType'')] \<rparr>) \<and>
      (\<forall>e. analyze q (field (req_body req) ''queryType'') = Inl e \<longrightarrow>
         handler analyze req =
           \<lparr> response = \<lparr> status = 500,
                           body = FailureBody ''Failed to analyze query'' (errorDetails e) \<rparr>,
             orchestratorCalls = [(q, field (req_body req) ''queryType'')] \<rparr>))"
proof (intro conjI impI allI)
  assume "req_method req \<noteq> ''POST''"
  then show "handler analyze req =
        \<lparr> response = \<lparr> status = 405, body = ErrorBody ''Method not allowed'' \<rparr>,
          orchestratorCalls = [] \<rparr>"
    by (simp add: handler_def)
next
  assume h: "req_method req = ''POST'' \<and> req_body req \<noteq> JNull \<and> req_body req \<noteq> JUndefined \<and>
    (\<forall>q. field (req_body req) ''query'' = JString q \<longrightarrow> q = [])"
  then have d: "destructure (req_body req) =
      Inr (field (req_body req) ''query'', field (req_body req) ''queryType'')"
    by (cases "req_body req") (simp_all add: destructure_def)
  from h have "falsy (field (req_body req) ''query'') \<or>
      typeof (field (req_body req) ''query'') \<noteq> ''string''"
    by (cases "field (req_body req) ''query''") (simp_all add: falsy_def typeof_def)
  with h d show "handler analyze req =
        \<lparr> response = \<lparr> status = 400, body = ErrorBody ''Query is required'' \<rparr>,
          orchestratorCalls = [] \<rparr>"
    by (simp add: handler_def)
next
  fix r
  assume h: "req_method req = ''POST'' \<and> req_body req \<noteq> JNull \<and> req_body req \<noteq> JUndefined \<and>
    field (req_body req) ''query'' = JString q \<and> q \<noteq> []"
    and a: "analyze q (field (req_body req) ''queryType'') = Inr r"
  then have d: "destructure (req_body req) =
      Inr (JString q, field (req_body req) ''queryType'')"
    by (cases "req_body req") (simp_all add: destructure_def)
  from h a d show "handler analyze req =
           \<lparr> response = \<lparr> status = 200, body = ResultBody r \<rparr>,
             orchestratorCalls = [(q, field (req_body req) ''queryType'')] \<rparr>"
    by (simp add: handler_def falsy_def typeof_def stringValue_def)
next
  fix e
  assume h: "req_method req = ''POST'' \<and> req_body req \<noteq> JNull \<and> req_body req \<noteq> JUndefined \<and>
    field (req_body req) ''query'' = JString q \<and> q \<noteq> []"
    and a: "analyze q (field (req_body req) ''queryType'') = Inl e"
  then have d: "destructure (req_body req) =
      Inr (JString q, field (req_body req) ''queryType'')"
    by (cases "req_body req") (simp_all add: destructure_def)
  from h a d show "handler analyze req =
           \<lparr> response = \<lparr> status = 500,
                           body = FailureBody ''Failed to analyze query'' (errorDetails e) \<rparr>,
             orchestratorCalls = [(q, field (req_body req) ''queryType'')] \<rparr>"
    by (simp add: handler_def falsy_def typeof_def stringValue_def failed_def)
qed

theorem analyze_handler_status_witness:
  "handler echoOrchestrator getRequest =
     \<lparr> response = \<lparr> status = 405, body = ErrorBody ''Method not allowed'' \<rparr>,
       orchestratorCalls = [] \<rparr> \<and>
   handler echoOrchestrator noQueryRequest =
     \<lparr> response = \<lparr> status = 400, body = ErrorBody ''Query is required'' \<rparr>,
       orchestratorCalls = [] \<rparr> \<and>
   handler echoOrchestrator gymRequest =
     \<lparr> response = \<lparr> status = 200, body = ResultBody ''gym in Pune'' \<rparr>,
       orchestratorCalls = [(''gym in Pune'', JString ''market'')] \<rparr> \<and>
   handler brokenOrchestrator gymRequest =
     \<lparr> response = \<lparr> status = 500, body = FailureBody ''Failed to analyze query'' ''boom'' \<rparr>,
       orchestratorCalls = [(''gym in Pune'', JString ''market'')] \<rparr>"
proof -
  have a: "handler echoOrchestrator getRequest =
     \<lparr> response = \<lparr> status = 405, body = ErrorBody ''Method not allowed'' \<rparr>,
       orchestratorCalls = [] \<rparr>"
    using analyze_handler_status [of getRequest echoOrchestrator]
    by (simp add: getRequest_def)
  have b: "handler echoOrchestrator noQueryRequest =
     \<lparr> response = \<lparr> status = 400, body = ErrorBody ''Query is required'' \<rparr>,
       orchestratorCalls = [] \<rparr>"
    using analyze_handler_status [of noQueryRequest echoOrchestrator]
    by (simp add: noQueryRequest_def field_def)
  have c: "handler echoOrchestrator gymRequest =
     \<lparr> response = \<lparr> status = 200, body = ResultBody ''gym in Pune'' \<rparr>,
       orchestratorCalls = [(''gym in Pune'', JString ''market'')] \<rparr>"
    using analyze_handler_status [of gymRequest echoOrchestrator "''gym in Pune''"]
    by (simp add: gymRequest_def field_def echoOrchestrator_def)
  have d: "handler brokenOrchestrator gymRequest =
     \<lparr> response = \<lparr> status = 500, body = FailureBody ''Failed to analyze query'' ''boom'' \<rparr>,
       orchestratorCalls = [(''gym in Pune'', JString ''market'')] \<rparr>"
    using analyze_handler_status [of gymRequest brokenOrchestrator "''gym in Pune''"]
    by (simp add: gymRequest_def field_def brokenOrchestrator_def errorDetails_def)
  from a b c d show ?thesis by simp
qed

text \<open>
  The claim as first stated fails at a \<open>POST\<close> whose \<open>query\<close> is the empty string: the
  field is present and is a string, the orchestrator would return, and the response is
  400, not 200.
\<close>

theorem empty_query_rejected:
  "req_method emptyQueryRequest = ''POST'' \<and>
   field (req_body emptyQueryRequest) ''query'' = JString [] \<and>
   typeof (field (req_body emptyQueryRequest) ''query'') = ''string'' \<and>
   echoOrchestrator [] (field (req_body emptyQueryRequest) ''queryType'') = Inr [] \<and>
   status (response (handler echoOrchestrator emptyQueryRequest)) = 400 \<and>
   status (response (handler echoOrchestrator emptyQueryRequest)) \<noteq> 200"
  by (simp add: emptyQueryRequest_def handler_def destructure_def field_def falsy_def typeof_def
        echoOrchestrator_def)

text \<open>
  The 500 envelope is reached by the endpoint itself: in LLM mode, when the model replies
  with an empty object, the orchestrator is rejected and the handler reports it.
\<close>

lemma endpoint_failure_envelope:
  "status (response (analyzeEndpoint ollamaConfig jsonReply emptyObjectParser rt gymRequest))
     = 500"
  by (simp add: analyzeEndpoint_def handler_def gymRequest_def destructure_def field_def
        falsy_def typeof_def stringValue_def empty_object_reply_rejected failed_def)

end
